theory Spec2Isabelle
  imports Main "HOL-Library.List_Lexorder" "HOL-Library.Char_ord" "HOL-Library.Multiset"
begin

section \<open>Errors, remote entries and the collaborators\<close>

text \<open>
  A Go \<open>error\<close> value. \<open>External\<close> is an error made by a collaborator (the iRODS client
  library, the \<open>commons\<close> package, the operating system), named by its text.
  \<open>Errorf m\<close> is \<open>xerrors.Errorf(m)\<close> with no wrapped cause; \<open>Wrapped p e\<close> is
  \<open>xerrors.Errorf(p + "%w", ..., e)\<close>: the formatted text before the verb, and the cause.
  A nil error is \<open>None\<close> of \<open>error option\<close>.
\<close>

datatype error = External string | Errorf string | Wrapped string error

fun Error :: "error \<Rightarrow> string" where
  "Error (External m) = m"
| "Error (Errorf m) = m"
| "Error (Wrapped p e) = p @ Error e"

text \<open>\<open>irodsclient_fs.Entry\<close> and its \<open>Type\<close>, \<open>FileEntry\<close> or \<open>DirectoryEntry\<close>.\<close>

datatype EntryType = FileEntry | DirectoryEntry

record Entry =
  entry_Type :: EntryType
  entry_Name :: string
  entry_Path :: string
  entry_Size :: int

text \<open>\<open>irodsclient_types.IRODSCollection\<close>, \<open>IRODSReplica\<close> and \<open>IRODSDataObject\<close>: the
  fields the commands read. A modification time is an opaque number handed to
  \<open>commons.MakeDateTimeString\<close>.\<close>

record IRODSCollection =
  coll_Path :: string
  coll_Name :: string

record IRODSReplica =
  rep_Owner :: string
  rep_Number :: int
  rep_ResourceHierarchy :: string
  rep_ModifyTime :: int
  rep_Status :: string
  rep_CheckSum :: string
  rep_Path :: string

record IRODSDataObject =
  obj_Name :: string
  obj_Size :: int
  obj_Replicas :: "IRODSReplica list"

text \<open>A cobra command, as far as the commands read it: \<open>command.Flags().Lookup(name)\<close>
  is \<open>None\<close> for nil and otherwise the flag's \<open>Value.String()\<close>.\<close>

type_synonym command = "string \<rightharpoonup> string"

text \<open>Every call that leaves the program, in the order it is issued.\<close>

datatype call =
    ProcessCommonFlagsCall
  | InputMissingFieldsCall
  | GetIRODSFSClientCall
  | ReleaseCall
  | StatIRODSPathCall string
  | RemoveFileCall string bool
  | RemoveDirCall string bool bool
  | GetMetadataConnectionCall
  | ReturnMetadataConnectionCall
  | GetCollectionCall string
  | ListSubCollectionsCall string
  | ListDataObjectsCall IRODSCollection
  | GetDataObjectCall IRODSCollection string
  | StatCall string
  | ReadDirCall string
  | MakeDirCall string bool
  | UploadFileParallelCall string string string int bool

text \<open>
  The state a command runs in: the world behind the collaborators (the remote namespace,
  the session, the local file system), the calls issued so far, and what was printed to
  standard output, one element per \<open>fmt.Printf\<close>.
\<close>

record 'w state =
  world :: 'w
  calls :: "call list"
  stdout :: "string list"

definition invoke :: "call \<Rightarrow> ('w \<Rightarrow> 'r \<times> 'w) \<Rightarrow> 'w state \<Rightarrow> 'r \<times> 'w state" where
  "invoke c op s =
     (case op (world s) of (r, w') \<Rightarrow> (r, s\<lparr>world := w', calls := calls s @ [c]\<rparr>))"

definition Printf :: "string \<Rightarrow> 'w state \<Rightarrow> 'w state" where
  "Printf line s = s\<lparr>stdout := stdout s @ [line]\<rparr>"

text \<open>
  The collaborators of \<open>rm\<close> and \<open>ls\<close>: the \<open>commons\<close> package, the iRODS file system
  client and the functions of Go's \<open>path\<close> package. None of them is among the sources,
  so each is a parameter. A call that can fail returns \<open>Inl\<close> of its error, or
  \<open>Some\<close> of it when it returns nothing else.
\<close>

record 'w irods =
  GetCWD :: string
  GetHomeDir :: string
  GetZone :: string
  MakeIRODSPath :: "string \<Rightarrow> string \<Rightarrow> string \<Rightarrow> string \<Rightarrow> string"
  ProcessCommonFlags :: "command \<Rightarrow> 'w \<Rightarrow> (error + bool) \<times> 'w"
  InputMissingFields :: "'w \<Rightarrow> (error + bool) \<times> 'w"
  GetIRODSFSClient :: "'w \<Rightarrow> error option \<times> 'w"
  Release :: "'w \<Rightarrow> 'w"
  StatIRODSPath :: "string \<Rightarrow> 'w \<Rightarrow> (error + Entry) \<times> 'w"
  RemoveFile :: "string \<Rightarrow> bool \<Rightarrow> 'w \<Rightarrow> error option \<times> 'w"
  RemoveDir :: "string \<Rightarrow> bool \<Rightarrow> bool \<Rightarrow> 'w \<Rightarrow> error option \<times> 'w"
  GetMetadataConnection :: "'w \<Rightarrow> error option \<times> 'w"
  ReturnMetadataConnection :: "'w \<Rightarrow> 'w"
  GetCollection :: "string \<Rightarrow> 'w \<Rightarrow> (error + IRODSCollection) \<times> 'w"
  ListSubCollections :: "string \<Rightarrow> 'w \<Rightarrow> (error + IRODSCollection list) \<times> 'w"
  ListDataObjects :: "IRODSCollection \<Rightarrow> 'w \<Rightarrow> (error + IRODSDataObject list) \<times> 'w"
  GetDataObject :: "IRODSCollection \<Rightarrow> string \<Rightarrow> 'w \<Rightarrow> (error + IRODSDataObject) \<times> 'w"
  IsFileNotFoundError :: "error \<Rightarrow> bool"
  MakeDateTimeString :: "int \<Rightarrow> string"
  path_Dir :: "string \<Rightarrow> string"
  path_Base :: "string \<Rightarrow> string"

section \<open>rm\<close>

text \<open>
  \<open>removeOne\<close> (rm.go): resolve the path, stat it once, then remove a data object with
  \<open>RemoveFile\<close>, or a collection with \<open>RemoveDir\<close> when \<open>recurse\<close> is set. The
  \<open>logger.Debugf\<close> lines only log.
\<close>

definition removeOne :: "'w irods \<Rightarrow> string \<Rightarrow> bool \<Rightarrow> bool \<Rightarrow> 'w state \<Rightarrow> error option \<times> 'w state" where
  "removeOne filesystem targetPath0 force recurse s =
     (let cwd = GetCWD filesystem;
          home = GetHomeDir filesystem;
          zone = GetZone filesystem;
          targetPath = MakeIRODSPath filesystem cwd home zone targetPath0
      in case invoke (StatIRODSPathCall targetPath) (StatIRODSPath filesystem targetPath) s of
           (Inl err, s1) \<Rightarrow> (Some (Wrapped (''failed to stat '' @ targetPath @ '': '') err), s1)
         | (Inr targetEntry, s1) \<Rightarrow>
             if entry_Type targetEntry = FileEntry then
               (case invoke (RemoveFileCall targetPath force)
                       (RemoveFile filesystem targetPath force) s1 of
                  (Some err, s2) \<Rightarrow>
                    (Some (Wrapped (''failed to remove '' @ targetPath @ '': '') err), s2)
                | (None, s2) \<Rightarrow> (None, s2))
             else if \<not> recurse then
               (Some (Errorf ''cannot remove a collection, recurse is not set''), s1)
             else
               (case invoke (RemoveDirCall targetPath recurse force)
                       (RemoveDir filesystem targetPath recurse force) s1 of
                  (Some err, s2) \<Rightarrow>
                    (Some (Wrapped (''failed to remove dir '' @ targetPath @ '': '') err), s2)
                | (None, s2) \<Rightarrow> (None, s2)))"

text \<open>The remote delete calls among a list of calls.\<close>

fun is_remove :: "call \<Rightarrow> bool" where
  "is_remove (RemoveFileCall p f) = True"
| "is_remove (RemoveDirCall p r f) = True"
| "is_remove c = False"

fun is_stat :: "call \<Rightarrow> bool" where
  "is_stat (StatIRODSPathCall p) = True"
| "is_stat c = False"

text \<open>A small remote namespace for running the commands: the data object
  \<open>/z/home/u/data.txt\<close>, the collection \<open>/z/home/u/coll\<close>, whose data objects have
  no replica, and the collection \<open>/z/home/u/repl\<close>, whose data objects \<open>n\<close> and \<open>m\<close>
  have one and two. Its world counts the calls that changed it. \<open>demo_path_Dir\<close> and
  \<open>demo_path_Base\<close> are Go's \<open>path.Dir\<close> and \<open>path.Base\<close> on clean paths (no trailing
  slash, no empty, \<open>.\<close> or \<open>..\<close> element).\<close>

definition demo_path_Dir :: "string \<Rightarrow> string" where
  "demo_path_Dir p =
     (if CHR ''/'' \<notin> set p then ''.''
      else (let d = rev (drop 1 (dropWhile (\<lambda>c. c \<noteq> CHR ''/'') (rev p)))
            in if d = [] then ''/'' else d))"

definition demo_path_Base :: "string \<Rightarrow> string" where
  "demo_path_Base p =
     (if p = [] then ''.''
      else if p = ''/'' then ''/''
      else rev (takeWhile (\<lambda>c. c \<noteq> CHR ''/'') (rev p)))"

definition demo_obj_n :: IRODSDataObject where
  "demo_obj_n = \<lparr>obj_Name = ''n'', obj_Size = 7,
     obj_Replicas = [\<lparr>rep_Owner = ''u'', rep_Number = 0, rep_ResourceHierarchy = ''demoResc'',
                      rep_ModifyTime = 0, rep_Status = ''0'', rep_CheckSum = ''sha2:n0'',
                      rep_Path = ''/vault/n''\<rparr>]\<rparr>"

definition demo_obj_m :: IRODSDataObject where
  "demo_obj_m = \<lparr>obj_Name = ''m'', obj_Size = 1024,
     obj_Replicas = [\<lparr>rep_Owner = ''u'', rep_Number = 0, rep_ResourceHierarchy = ''demoResc'',
                      rep_ModifyTime = 0, rep_Status = ''1'', rep_CheckSum = ''sha2:m0'',
                      rep_Path = ''/vault/m''\<rparr>,
                     \<lparr>rep_Owner = ''v'', rep_Number = 1, rep_ResourceHierarchy = ''tape'',
                      rep_ModifyTime = 0, rep_Status = ''9'', rep_CheckSum = ''sha2:m1'',
                      rep_Path = ''/tape/m''\<rparr>]\<rparr>"

definition demo_join :: "string \<Rightarrow> string \<Rightarrow> string" where
  "demo_join d p = (if p = ''.'' \<or> p = [] then d else if hd p = CHR ''/'' then p else d @ ''/'' @ p)"

definition demo_file :: Entry where
  "demo_file = \<lparr>entry_Type = FileEntry, entry_Name = ''data.txt'',
                 entry_Path = ''/z/home/u/data.txt'', entry_Size = 3\<rparr>"

definition demo_dir :: Entry where
  "demo_dir = \<lparr>entry_Type = DirectoryEntry, entry_Name = ''coll'',
                entry_Path = ''/z/home/u/coll'', entry_Size = 0\<rparr>"

definition demo_fs :: "nat irods" where
  "demo_fs = \<lparr>
     GetCWD = ''/z/home/u'',
     GetHomeDir = ''/z/home/u'',
     GetZone = ''z'',
     MakeIRODSPath = (\<lambda>cwd home zone p. demo_join cwd p),
     ProcessCommonFlags = (\<lambda>c w. (Inr True, w)),
     InputMissingFields = (\<lambda>w. (Inr False, w)),
     GetIRODSFSClient = (\<lambda>w. (None, w)),
     Release = (\<lambda>w. w),
     StatIRODSPath = (\<lambda>p w.
        (if p = ''/z/home/u/data.txt'' then Inr demo_file
         else if p = ''/z/home/u/coll'' then Inr demo_dir
         else Inl (External ''not found''), w)),
     RemoveFile = (\<lambda>p f w. (None, Suc w)),
     RemoveDir = (\<lambda>p r f w. (None, Suc w)),
     GetMetadataConnection = (\<lambda>w. (None, w)),
     ReturnMetadataConnection = (\<lambda>w. w),
     GetCollection = (\<lambda>p w.
        (if p = ''/z/home/u/coll''
         then Inr \<lparr>coll_Path = ''/z/home/u/coll'', coll_Name = ''coll''\<rparr>
         else if p = ''/z/home/u''
         then Inr \<lparr>coll_Path = ''/z/home/u'', coll_Name = ''u''\<rparr>
         else if p = ''/z/home/u/repl''
         then Inr \<lparr>coll_Path = ''/z/home/u/repl'', coll_Name = ''repl''\<rparr>
         else if p = ''/z/locked'' then Inl (External ''permission denied'')
         else Inl (External ''not found''), w)),
     ListSubCollections = (\<lambda>p w.
        (if p = ''/z/home/u/coll''
         then Inr [\<lparr>coll_Path = ''/z/home/u/coll/z'', coll_Name = ''z''\<rparr>,
                   \<lparr>coll_Path = ''/z/home/u/coll/y'', coll_Name = ''y''\<rparr>]
         else if p = ''/z/home/u/repl''
         then Inr [\<lparr>coll_Path = ''/z/home/u/repl/k'', coll_Name = ''k''\<rparr>]
         else Inr [], w)),
     ListDataObjects = (\<lambda>c w.
        (if coll_Path c = ''/z/home/u/coll''
         then Inr [\<lparr>obj_Name = ''b'', obj_Size = 2, obj_Replicas = []\<rparr>,
                   \<lparr>obj_Name = ''a'', obj_Size = 1, obj_Replicas = []\<rparr>]
         else if coll_Path c = ''/z/home/u/repl'' then Inr [demo_obj_n, demo_obj_m]
         else Inr [], w)),
     GetDataObject = (\<lambda>c n w.
        (if coll_Path c = ''/z/home/u'' \<and> n = ''data.txt''
         then Inr \<lparr>obj_Name = ''data.txt'', obj_Size = 3, obj_Replicas = []\<rparr>
         else if coll_Path c = ''/z/home/u/repl'' \<and> n = ''m'' then Inr demo_obj_m
         else Inl (External ''not found''), w)),
     IsFileNotFoundError = (\<lambda>e. e = External ''not found''),
     MakeDateTimeString = (\<lambda>t. ''2022-01-01 00:00:00''),
     path_Dir = demo_path_Dir,
     path_Base = demo_path_Base\<rparr>"

definition demo_state :: "nat state" where
  "demo_state = \<lparr>world = 0, calls = [], stdout = []\<rparr>"

text \<open>
  \<open>strconv.ParseBool\<close> of Go's library: the value and the error it returns. On a string
  it does not know the value is false and the error is a syntax error, whose text (Go
  quotes the string in it) no caller reads.
\<close>

definition ParseBool :: "string \<Rightarrow> bool \<times> error option" where
  "ParseBool str =
     (if str = ''1'' \<or> str = ''t'' \<or> str = ''T'' \<or> str = ''true'' \<or> str = ''TRUE'' \<or> str = ''True''
      then (True, None)
      else if str = ''0'' \<or> str = ''f'' \<or> str = ''F'' \<or> str = ''false'' \<or> str = ''FALSE''
              \<or> str = ''False''
      then (False, None)
      else (False, Some (External (''strconv.ParseBool: parsing '' @ str @ '': invalid syntax''))))"

text \<open>
  The block that reads one boolean flag, written out four times in the sources (rm.go
  lines 45-52 and 54-61, ls.go lines 50-57 and 59-66): the variable starts false, and when
  the flag exists it takes the parsed value, or false when the parse failed. The error
  variable is overwritten by the next call and never returned.
\<close>

definition boolFlag :: "command \<Rightarrow> string \<Rightarrow> bool" where
  "boolFlag command name =
     (case command name of
        None \<Rightarrow> False
      | Some v \<Rightarrow> (case ParseBool v of (b, Some err) \<Rightarrow> False | (b, None) \<Rightarrow> b))"

text \<open>A deferred call: it runs when the body returns, whatever the body returns.\<close>

definition deferred :: "call \<Rightarrow> ('w \<Rightarrow> 'w) \<Rightarrow> ('w state \<Rightarrow> 'r \<times> 'w state) \<Rightarrow> 'w state \<Rightarrow> 'r \<times> 'w state" where
  "deferred c op body s =
     (case body s of (r, s') \<Rightarrow> (r, snd (invoke c (\<lambda>w. ((), op w)) s')))"

text \<open>The loop over the arguments of \<open>processRmCommand\<close> (rm.go lines 76-81).\<close>

fun removeEach :: "'w irods \<Rightarrow> bool \<Rightarrow> bool \<Rightarrow> string list \<Rightarrow> 'w state \<Rightarrow> error option \<times> 'w state" where
  "removeEach filesystem force recurse [] s = (None, s)"
| "removeEach filesystem force recurse (sourcePath # rest) s =
     (case removeOne filesystem sourcePath force recurse s of
        (Some err, s1) \<Rightarrow>
          (Some (Wrapped (''failed to perform rm '' @ sourcePath @ '': '') err), s1)
      | (None, s1) \<Rightarrow> removeEach filesystem force recurse rest s1)"

text \<open>
  \<open>processRmCommand\<close> (rm.go): the common flags, the missing fields, the two flags, the
  client (released when the function returns), then the arguments in order.
  \<open>commons.GetAccount\<close> only reads the configuration for \<open>GetIRODSFSClient\<close>.
\<close>

definition processRmCommand :: "'w irods \<Rightarrow> command \<Rightarrow> string list \<Rightarrow> 'w state \<Rightarrow> error option \<times> 'w state" where
  "processRmCommand filesystem command args s =
     (case invoke ProcessCommonFlagsCall (ProcessCommonFlags filesystem command) s of
        (Inl err, s1) \<Rightarrow> (Some (Wrapped ''failed to process common flags: '' err), s1)
      | (Inr cont, s1) \<Rightarrow>
          if \<not> cont then (None, s1)
          else
            (case invoke InputMissingFieldsCall (InputMissingFields filesystem) s1 of
               (Inl err, s2) \<Rightarrow> (Some (Wrapped ''failed to input missing fields: '' err), s2)
             | (Inr updated, s2) \<Rightarrow>
                 (let recurse = boolFlag command ''recurse'';
                      force = boolFlag command ''force''
                  in case invoke GetIRODSFSClientCall (GetIRODSFSClient filesystem) s2 of
                       (Some err, s3) \<Rightarrow>
                         (Some (Wrapped ''failed to get iRODS FS Client: '' err), s3)
                     | (None, s3) \<Rightarrow>
                         deferred ReleaseCall (Release filesystem)
                           (\<lambda>s4. if length args = 0
                                 then (Some (Errorf ''not enough input arguments''), s4)
                                 else removeEach filesystem force recurse args s4) s3)))"

section \<open>ls\<close>

text \<open>\<open>getStatusMark\<close> (ls.go): the mark of a replica's status.\<close>

definition getStatusMark :: "string \<Rightarrow> string" where
  "getStatusMark status =
     (if status = ''0'' then ''X''
      else if status = ''1'' then ''&''
      else ''?'')"

text \<open>The verb \<open>%d\<close> of \<open>fmt.Printf\<close>: an integer in decimal.\<close>

definition digit :: "nat \<Rightarrow> char" where
  "digit n = char_of (48 + n)"

fun FormatNat :: "nat \<Rightarrow> string" where
  "FormatNat n = (if n < 10 then [digit n] else FormatNat (n div 10) @ [digit (n mod 10)])"

declare FormatNat.simps [simp del]

definition FormatInt :: "int \<Rightarrow> string" where
  "FormatInt i = (if i < 0 then ''-'' @ FormatNat (nat (- i)) else FormatNat (nat i))"

definition TAB :: string where
  "TAB = [CHR 0x09]"

definition NL :: string where
  "NL = [CHR 0x0A]"

text \<open>\<open>printDataObject\<close> (ls.go): two lines for each replica in the very long format, one
  in the long format, and the bare name otherwise. \<open>replicaLine\<close> is the line both
  formats print first, \<open>"  %s\t%d\t%s\t%d\t%s\t%s\t%s\n"\<close> of the owner, the replica
  number, the resource hierarchy, the size, the modification time, the status mark and the
  name.\<close>

definition replicaLine :: "'w irods \<Rightarrow> IRODSDataObject \<Rightarrow> IRODSReplica \<Rightarrow> string" where
  "replicaLine fs entry replica =
     (let modTime = MakeDateTimeString fs (rep_ModifyTime replica)
      in ''  '' @ rep_Owner replica @ TAB @ FormatInt (rep_Number replica) @ TAB
         @ rep_ResourceHierarchy replica @ TAB @ FormatInt (obj_Size entry) @ TAB @ modTime
         @ TAB @ getStatusMark (rep_Status replica) @ TAB @ obj_Name entry @ NL)"

definition printDataObject :: "'w irods \<Rightarrow> IRODSDataObject \<Rightarrow> bool \<Rightarrow> bool \<Rightarrow> 'w state \<Rightarrow> 'w state" where
  "printDataObject fs entry veryLongFormat longFormat s =
     (if veryLongFormat then
        foldl (\<lambda>s' replica.
                 Printf (''    '' @ rep_CheckSum replica @ TAB @ rep_Path replica @ NL)
                   (Printf (replicaLine fs entry replica) s'))
          s (obj_Replicas entry)
      else if longFormat then
        foldl (\<lambda>s' replica. Printf (replicaLine fs entry replica) s') s (obj_Replicas entry)
      else Printf (''  '' @ obj_Name entry @ NL) s)"

text \<open>
  \<open>sort.SliceStable\<close> of Go's library, given the \<open>less\<close> function: a stable sort. All
  stable sorts return the same slice; this one inserts each element, from the last to the
  first, before the first element that is not less than it.
\<close>

fun insertStable :: "('a \<Rightarrow> 'a \<Rightarrow> bool) \<Rightarrow> 'a \<Rightarrow> 'a list \<Rightarrow> 'a list" where
  "insertStable lessFn x [] = [x]"
| "insertStable lessFn x (y # ys) =
     (if lessFn y x then y # insertStable lessFn x ys else x # y # ys)"

definition SliceStable :: "('a \<Rightarrow> 'a \<Rightarrow> bool) \<Rightarrow> 'a list \<Rightarrow> 'a list" where
  "SliceStable lessFn entries = foldr (insertStable lessFn) entries []"

definition printDataObjects :: "'w irods \<Rightarrow> IRODSDataObject list \<Rightarrow> bool \<Rightarrow> bool \<Rightarrow> 'w state \<Rightarrow> 'w state" where
  "printDataObjects fs entries veryLongFormat longFormat s =
     foldl (\<lambda>s' entry. printDataObject fs entry veryLongFormat longFormat s') s
       (SliceStable (\<lambda>a b. obj_Name a < obj_Name b) entries)"

definition printCollections :: "IRODSCollection list \<Rightarrow> 'w state \<Rightarrow> 'w state" where
  "printCollections entries s =
     foldl (\<lambda>s' entry. Printf (''  C- '' @ coll_Path entry @ NL) s') s
       (SliceStable (\<lambda>a b. coll_Name a < coll_Name b) entries)"

text \<open>
  \<open>listOne\<close> (ls.go): take a metadata connection, returned when the function returns;
  look the path up as a collection and list it, or, when the lookup says not found, look
  its parent up and print the one data object.
\<close>

definition listOne :: "'w irods \<Rightarrow> string \<Rightarrow> bool \<Rightarrow> bool \<Rightarrow> 'w state \<Rightarrow> error option \<times> 'w state" where
  "listOne fs sourcePath0 longFormat veryLongFormat s =
     (let cwd = GetCWD fs;
          home = GetHomeDir fs;
          zone = GetZone fs;
          sourcePath = MakeIRODSPath fs cwd home zone sourcePath0
      in case invoke GetMetadataConnectionCall (GetMetadataConnection fs) s of
           (Some err, s1) \<Rightarrow> (Some (Wrapped ''failed to get connection: '' err), s1)
         | (None, s1) \<Rightarrow>
             deferred ReturnMetadataConnectionCall (ReturnMetadataConnection fs)
               (\<lambda>s1.
                  case invoke (GetCollectionCall sourcePath) (GetCollection fs sourcePath) s1 of
                    (Inr collection, s2) \<Rightarrow>
                      (case invoke (ListSubCollectionsCall sourcePath)
                              (ListSubCollections fs sourcePath) s2 of
                         (Inl err, s3) \<Rightarrow>
                           (Some (Wrapped (''failed to list sub-collections in '' @ sourcePath
                                     @ '': '') err), s3)
                       | (Inr colls, s3) \<Rightarrow>
                           (case invoke (ListDataObjectsCall collection)
                                   (ListDataObjects fs collection) s3 of
                              (Inl err, s4) \<Rightarrow>
                                (Some (Wrapped (''failed to list data-objects in '' @ sourcePath
                                          @ '': '') err), s4)
                            | (Inr objs, s4) \<Rightarrow>
                                (None, printCollections colls
                                         (printDataObjects fs objs veryLongFormat longFormat s4))))
                  | (Inl err, s2) \<Rightarrow>
                      if \<not> IsFileNotFoundError fs err then
                        (Some (Wrapped (''failed to get collection '' @ sourcePath @ '': '') err), s2)
                      else
                        (let parentSourcePath = path_Dir fs sourcePath
                         in case invoke (GetCollectionCall parentSourcePath)
                                   (GetCollection fs parentSourcePath) s2 of
                              (Inl err, s3) \<Rightarrow>
                                (Some (Wrapped (''failed to get collection '' @ parentSourcePath
                                          @ '': '') err), s3)
                            | (Inr parentCollection, s3) \<Rightarrow>
                                (case invoke (GetDataObjectCall parentCollection
                                               (path_Base fs sourcePath))
                                        (GetDataObject fs parentCollection
                                           (path_Base fs sourcePath)) s3 of
                                   (Inl err, s4) \<Rightarrow>
                                     (Some (Wrapped (''failed to get data-object '' @ sourcePath
                                               @ '': '') err), s4)
                                 | (Inr entry, s4) \<Rightarrow>
                                     (None, printDataObject fs entry veryLongFormat longFormat s4))))
               s1)"

text \<open>The loop over the paths of \<open>processLsCommand\<close> (ls.go lines 83-88).\<close>

fun listEach :: "'w irods \<Rightarrow> bool \<Rightarrow> bool \<Rightarrow> string list \<Rightarrow> 'w state \<Rightarrow> error option \<times> 'w state" where
  "listEach filesystem longFormat veryLongFormat [] s = (None, s)"
| "listEach filesystem longFormat veryLongFormat (sourcePath # rest) s =
     (case listOne filesystem sourcePath longFormat veryLongFormat s of
        (Some err, s1) \<Rightarrow>
          (Some (Wrapped (''failed to perform ls '' @ sourcePath @ '': '') err), s1)
      | (None, s1) \<Rightarrow> listEach filesystem longFormat veryLongFormat rest s1)"

text \<open>
  \<open>processLsCommand\<close> (ls.go): as \<open>processRmCommand\<close> up to the client; the paths are
  the arguments, or \<open>.\<close> alone when there is none.
\<close>

definition processLsCommand :: "'w irods \<Rightarrow> command \<Rightarrow> string list \<Rightarrow> 'w state \<Rightarrow> error option \<times> 'w state" where
  "processLsCommand filesystem command args s =
     (case invoke ProcessCommonFlagsCall (ProcessCommonFlags filesystem command) s of
        (Inl err, s1) \<Rightarrow> (Some (Wrapped ''failed to process common flags: '' err), s1)
      | (Inr cont, s1) \<Rightarrow>
          if \<not> cont then (None, s1)
          else
            (case invoke InputMissingFieldsCall (InputMissingFields filesystem) s1 of
               (Inl err, s2) \<Rightarrow> (Some (Wrapped ''failed to input missing fields: '' err), s2)
             | (Inr updated, s2) \<Rightarrow>
                 (let longFormat = boolFlag command ''long'';
                      veryLongFormat = boolFlag command ''verylong''
                  in case invoke GetIRODSFSClientCall (GetIRODSFSClient filesystem) s2 of
                       (Some err, s3) \<Rightarrow>
                         (Some (Wrapped ''failed to get iRODS FS Client: '' err), s3)
                     | (None, s3) \<Rightarrow>
                         deferred ReleaseCall (Release filesystem)
                           (\<lambda>s4. let sourcePaths = (if length args = 0 then [''.''] else args)
                                 in listEach filesystem longFormat veryLongFormat sourcePaths s4)
                           s3)))"

section \<open>goput\<close>

text \<open>
  The collaborators of \<open>goput\<close>: the \<open>commons\<close> package as this command calls it
  (\<open>MakeIRODSPath\<close> takes the working collection and the path), Go's \<open>os\<close> and
  \<open>path/filepath\<close> packages and the iRODS file system client. \<open>os.Stat\<close> gives
  \<open>IsDir()\<close> of the file it found; \<open>os.ReadDir\<close> gives the names of the entries, which
  Go returns sorted by file name.
\<close>

record 'w uploader =
  MakeLocalPath :: "string \<Rightarrow> string"
  goput_GetCWD :: string
  goput_MakeIRODSPath :: "string \<Rightarrow> string \<Rightarrow> string"
  os_Stat :: "string \<Rightarrow> 'w \<Rightarrow> (error + bool) \<times> 'w"
  os_ReadDir :: "string \<Rightarrow> 'w \<Rightarrow> (error + string list) \<times> 'w"
  filepath_Join :: "string \<Rightarrow> string \<Rightarrow> string"
  filepath_Base :: "string \<Rightarrow> string"
  MakeDir :: "string \<Rightarrow> bool \<Rightarrow> 'w \<Rightarrow> error option \<times> 'w"
  UploadFileParallel :: "string \<Rightarrow> string \<Rightarrow> string \<Rightarrow> int \<Rightarrow> bool \<Rightarrow> 'w \<Rightarrow> error option \<times> 'w"

text \<open>\<open>putDataObject\<close> (goput.go): one parallel upload with an empty resource, zero
  tasks and no replication; the \<open>logger.Debugf\<close> line only logs.\<close>

definition putDataObject :: "'w uploader \<Rightarrow> string \<Rightarrow> string \<Rightarrow> 'w state \<Rightarrow> error option \<times> 'w state" where
  "putDataObject filesystem sourcePath targetPath s =
     (case invoke (UploadFileParallelCall sourcePath targetPath [] 0 False)
             (UploadFileParallel filesystem sourcePath targetPath [] 0 False) s of
        (Some err, s1) \<Rightarrow> (Some err, s1)
      | (None, s1) \<Rightarrow> (None, s1))"

text \<open>
  The loop over the entries of a directory in \<open>putOne\<close> (goput.go lines 120-125): the
  first entry whose upload returns an error ends the loop with that error. \<open>None\<close> is an
  upload that did not return within the nesting depth it was given.
\<close>

fun putEntries :: "(string \<Rightarrow> 'w state \<Rightarrow> (error option \<times> 'w state) option) \<Rightarrow> string list \<Rightarrow> 'w state \<Rightarrow> (error option \<times> 'w state) option" where
  "putEntries body [] s = Some (None, s)"
| "putEntries body (entryInDir # rest) s =
     (case body entryInDir s of
        None \<Rightarrow> None
      | Some (Some err, s1) \<Rightarrow> Some (Some err, s1)
      | Some (None, s1) \<Rightarrow> putEntries body rest s1)"

text \<open>
  \<open>putOne\<close> (goput.go). The recursion follows the local file system, which is a parameter
  here and need not be finite (a symbolic link can lead back into the tree), so the
  function takes the number of nested calls it may make, and returns \<open>None\<close> when that
  does not suffice.
\<close>

fun putOne :: "nat \<Rightarrow> 'w uploader \<Rightarrow> string \<Rightarrow> string \<Rightarrow> 'w state \<Rightarrow> (error option \<times> 'w state) option" where
  "putOne 0 filesystem sourcePath0 targetPath0 s = None"
| "putOne (Suc depth) filesystem sourcePath0 targetPath0 s =
     (let sourcePath = MakeLocalPath filesystem sourcePath0;
          cwd = goput_GetCWD filesystem;
          targetPath = goput_MakeIRODSPath filesystem cwd targetPath0
      in case invoke (StatCall sourcePath) (os_Stat filesystem sourcePath) s of
           (Inl err, s1) \<Rightarrow> Some (Some err, s1)
         | (Inr isDir, s1) \<Rightarrow>
             if \<not> isDir then Some (putDataObject filesystem sourcePath targetPath s1)
             else
               (case invoke (ReadDirCall sourcePath) (os_ReadDir filesystem sourcePath) s1 of
                  (Inl err, s2) \<Rightarrow> Some (Some err, s2)
                | (Inr entries, s2) \<Rightarrow>
                    (let targetDir = filepath_Join filesystem targetPath
                                       (filepath_Base filesystem sourcePath)
                     in case invoke (MakeDirCall targetDir True)
                               (MakeDir filesystem targetDir True) s2 of
                          (Some err, s3) \<Rightarrow> Some (Some err, s3)
                        | (None, s3) \<Rightarrow>
                            putEntries
                              (\<lambda>entryInDir.
                                 putOne depth filesystem
                                   (filepath_Join filesystem sourcePath entryInDir) targetDir)
                              entries s3)))"

text \<open>The calls that create a collection or upload a file.\<close>

fun is_remote_write :: "call \<Rightarrow> bool" where
  "is_remote_write (MakeDirCall p r) = True"
| "is_remote_write (UploadFileParallelCall a b c d e) = True"
| "is_remote_write c = False"

text \<open>
  A local tree for running the upload: \<open>/tmp/root\<close> holds \<open>a.txt\<close> and the directory
  \<open>sub\<close>, which holds \<open>b.txt\<close>; \<open>/tmp/bad\<close> holds \<open>a.txt\<close>, whose upload is refused,
  and \<open>b.txt\<close>.
\<close>

definition demo_uploader :: "nat uploader" where
  "demo_uploader = \<lparr>
     MakeLocalPath = (\<lambda>p. demo_join ''/tmp'' p),
     goput_GetCWD = ''/z/home/u'',
     goput_MakeIRODSPath = (\<lambda>cwd p. demo_join cwd p),
     os_Stat = (\<lambda>p w.
       (if p = ''/tmp/root'' \<or> p = ''/tmp/root/sub'' \<or> p = ''/tmp/bad'' then Inr True
        else if p = ''/tmp/root/a.txt'' \<or> p = ''/tmp/root/sub/b.txt''
                \<or> p = ''/tmp/bad/a.txt'' \<or> p = ''/tmp/bad/b.txt'' then Inr False
        else Inl (External ''no such file or directory''), w)),
     os_ReadDir = (\<lambda>p w.
       (if p = ''/tmp/root'' then Inr [''a.txt'', ''sub'']
        else if p = ''/tmp/root/sub'' then Inr [''b.txt'']
        else if p = ''/tmp/bad'' then Inr [''a.txt'', ''b.txt'']
        else Inl (External ''not a directory''), w)),
     filepath_Join = (\<lambda>a b. a @ ''/'' @ b),
     filepath_Base = (\<lambda>p. rev (takeWhile (\<lambda>c. c \<noteq> CHR ''/'') (rev p))),
     MakeDir = (\<lambda>p r w. (None, Suc w)),
     UploadFileParallel = (\<lambda>src tgt res n b w.
       if src = ''/tmp/bad/a.txt'' then (Some (External ''permission denied''), w)
       else (None, Suc w))\<rparr>"

text \<open>
  Modelled from the spec: \<open>commons.MakeIRODSPath\<close> is not among the sources. The spec's
  PathResolver, rule (1): if the raw path is empty or \<open>.\<close>, the result is the current
  working collection.
\<close>

definition resolves_dot_to_cwd :: "'w irods \<Rightarrow> bool" where
  "resolves_dot_to_cwd fs \<longleftrightarrow>
     MakeIRODSPath fs (GetCWD fs) (GetHomeDir fs) (GetZone fs) ''.'' = GetCWD fs
     \<and> MakeIRODSPath fs (GetCWD fs) (GetHomeDir fs) (GetZone fs) [] = GetCWD fs"

section \<open>Properties of rm\<close>

text \<open>
  C1, as the code has it: on a target that the stat reports as a collection, with
  \<open>recurse\<close> false, \<open>removeOne\<close> returns the error "cannot remove a collection, recurse
  is not set" and the only call it has issued is the stat: neither \<open>RemoveFile\<close> nor
  \<open>RemoveDir\<close> is called, whatever the collection holds.
\<close>

theorem removeOne_collection_without_recurse:
  assumes "targetPath = MakeIRODSPath filesystem (GetCWD filesystem) (GetHomeDir filesystem)
             (GetZone filesystem) targetPath0"
    and "fst (StatIRODSPath filesystem targetPath (world s)) = Inr targetEntry"
    and "entry_Type targetEntry = DirectoryEntry"
  shows "fst (removeOne filesystem targetPath0 force False s)
           = Some (Errorf ''cannot remove a collection, recurse is not set'')
       \<and> calls (snd (removeOne filesystem targetPath0 force False s))
           = calls s @ [StatIRODSPathCall targetPath]
       \<and> filter is_remove (calls (snd (removeOne filesystem targetPath0 force False s)))
           = filter is_remove (calls s)"
  using assms
  by (cases "StatIRODSPath filesystem targetPath (world s)")
     (simp add: removeOne_def invoke_def Let_def)

theorem removeOne_collection_without_recurse_witness:
  "fst (removeOne demo_fs ''coll'' True False demo_state)
     = Some (Errorf ''cannot remove a collection, recurse is not set'')
   \<and> calls (snd (removeOne demo_fs ''coll'' True False demo_state))
     = [StatIRODSPathCall ''/z/home/u/coll'']"
  using removeOne_collection_without_recurse
    [of "''/z/home/u/coll''" demo_fs "''coll''" demo_state demo_dir True]
  by (simp add: demo_fs_def demo_state_def demo_dir_def demo_join_def)

text \<open>The claim names another error text, which the code does not produce.\<close>

theorem removeOne_gate_message_counterexample:
  "fst (StatIRODSPath demo_fs ''/z/home/u/coll'' (world demo_state)) = Inr demo_dir
   \<and> entry_Type demo_dir = DirectoryEntry
   \<and> map_option Error (fst (removeOne demo_fs ''/z/home/u/coll'' False False demo_state))
       = Some ''cannot remove a collection, recurse is not set''
   \<and> map_option Error (fst (removeOne demo_fs ''/z/home/u/coll'' False False demo_state))
       \<noteq> Some ''refusing to remove non-empty collection without recurse''"
  by (simp add: removeOne_def invoke_def Let_def demo_fs_def demo_state_def demo_dir_def
      demo_join_def)



text \<open>
  C7: every run of \<open>removeOne\<close> issues exactly one stat, as its first call; when the stat
  fails, with not-found or anything else, its error is returned (wrapped with the path)
  and the stat is the only call issued: no retry and no removal of either kind.
\<close>

theorem removeOne_one_stat:
  assumes "targetPath = MakeIRODSPath filesystem (GetCWD filesystem) (GetHomeDir filesystem)
             (GetZone filesystem) targetPath0"
  shows "take (Suc (length (calls s))) (calls (snd (removeOne filesystem targetPath0 force recurse s)))
           = calls s @ [StatIRODSPathCall targetPath]
       \<and> length (filter is_stat (drop (length (calls s))
             (calls (snd (removeOne filesystem targetPath0 force recurse s))))) = 1
       \<and> (\<forall>err. fst (StatIRODSPath filesystem targetPath (world s)) = Inl err \<longrightarrow>
             fst (removeOne filesystem targetPath0 force recurse s)
               = Some (Wrapped (''failed to stat '' @ targetPath @ '': '') err)
           \<and> calls (snd (removeOne filesystem targetPath0 force recurse s))
               = calls s @ [StatIRODSPathCall targetPath])"
proof -
  obtain r w1 where st: "StatIRODSPath filesystem targetPath (world s) = (r, w1)"
    by (cases "StatIRODSPath filesystem targetPath (world s)")
  obtain r2 w2 where rf: "RemoveFile filesystem targetPath force w1 = (r2, w2)"
    by (cases "RemoveFile filesystem targetPath force w1")
  obtain r3 w3 where rd: "RemoveDir filesystem targetPath recurse force w1 = (r3, w3)"
    by (cases "RemoveDir filesystem targetPath recurse force w1")
  show ?thesis
    using assms st rf rd
    by (cases r; cases r2; cases r3; cases recurse)
       (simp_all add: removeOne_def invoke_def Let_def)
qed

theorem removeOne_one_stat_witness:
  "fst (removeOne demo_fs ''missing'' True True demo_state)
     = Some (Wrapped ''failed to stat /z/home/u/missing: '' (External ''not found''))
   \<and> calls (snd (removeOne demo_fs ''missing'' True True demo_state))
     = [StatIRODSPathCall ''/z/home/u/missing'']"
  using removeOne_one_stat [of "''/z/home/u/missing''" demo_fs "''missing''" demo_state True True]
  by (simp add: demo_fs_def demo_state_def demo_join_def)

text \<open>
  C5: \<open>getStatusMark\<close> is a total three-way mapping: "1" gives "&", "0" gives "X", and
  every other string gives "?".
\<close>

theorem getStatusMark_total:
  "getStatusMark ''1'' = ''&'' \<and> getStatusMark ''0'' = ''X'' \<and> getStatusMark ''9'' = ''?''
   \<and> getStatusMark status
       = (if status = ''1'' then ''&'' else if status = ''0'' then ''X'' else ''?'')"
  by (simp add: getStatusMark_def)

section \<open>Properties of ls\<close>

text \<open>\<open>SliceStable\<close> with the comparison of a key is the library's stable sort by that key.\<close>

lemma insertStable_insort_key:
  "insertStable (\<lambda>a b. f a < f b) x ys = insort_key f x ys"
  by (induction ys) (auto simp: not_less)

lemma SliceStable_sort_key:
  "SliceStable (\<lambda>a b. f a < f b) xs = sort_key f xs"
proof -
  have "insertStable (\<lambda>a b. f a < f b) = insort_key f"
    by (intro ext) (rule insertStable_insort_key)
  then show ?thesis by (simp add: SliceStable_def sort_key_def)
qed

lemma foldl_Printf:
  "foldl (\<lambda>s' x. Printf (f x) s') s xs = s\<lparr>stdout := stdout s @ map f xs\<rparr>"
  by (induction xs arbitrary: s) (simp_all add: Printf_def)

lemma foldl_frame:
  assumes "\<And>x s. step (s\<lparr>world := w, calls := c\<rparr>) x = (step s x)\<lparr>world := w, calls := c\<rparr>"
  shows "foldl step (s\<lparr>world := w, calls := c\<rparr>) xs = (foldl step s xs)\<lparr>world := w, calls := c\<rparr>"
  by (induction xs arbitrary: s) (simp_all add: assms)

lemma Printf_frame:
  "Printf x (s\<lparr>world := w, calls := c\<rparr>) = (Printf x s)\<lparr>world := w, calls := c\<rparr>"
  by (simp add: Printf_def)

lemma printDataObject_frame:
  "printDataObject fs e v l (s\<lparr>world := w, calls := c\<rparr>)
     = (printDataObject fs e v l s)\<lparr>world := w, calls := c\<rparr>"
  by (simp add: printDataObject_def foldl_frame Printf_frame)

lemma printDataObjects_frame:
  "printDataObjects fs es v l (s\<lparr>world := w, calls := c\<rparr>)
     = (printDataObjects fs es v l s)\<lparr>world := w, calls := c\<rparr>"
  by (simp add: printDataObjects_def foldl_frame printDataObject_frame)

lemma printCollections_frame:
  "printCollections es (s\<lparr>world := w, calls := c\<rparr>)
     = (printCollections es s)\<lparr>world := w, calls := c\<rparr>"
  by (simp add: printCollections_def foldl_frame Printf_frame)

lemma printDataObjects_short:
  "printDataObjects fs es False False s
     = s\<lparr>stdout := stdout s @ map (\<lambda>e. ''  '' @ obj_Name e @ NL)
           (SliceStable (\<lambda>a b. obj_Name a < obj_Name b) es)\<rparr>"
  by (simp add: printDataObjects_def printDataObject_def foldl_Printf)

lemma printCollections_lines:
  "printCollections es s
     = s\<lparr>stdout := stdout s @ map (\<lambda>c. ''  C- '' @ coll_Path c @ NL)
           (SliceStable (\<lambda>a b. coll_Name a < coll_Name b) es)\<rparr>"
  by (simp add: printCollections_def foldl_Printf)

text \<open>What \<open>printDataObject\<close> and \<open>printDataObjects\<close> append to the output, written out.\<close>

lemma foldl_append_stdout:
  "foldl (\<lambda>s' x. s'\<lparr>stdout := stdout s' @ f x\<rparr>) s xs
     = s\<lparr>stdout := stdout s @ concat (map f xs)\<rparr>"
  by (induction xs arbitrary: s) simp_all

lemma printDataObject_lines:
  "printDataObject fs e v l s
     = s\<lparr>stdout := stdout s @
           (if v then
              concat (map (\<lambda>r. [''  '' @ rep_Owner r @ TAB @ FormatInt (rep_Number r) @ TAB
                          @ rep_ResourceHierarchy r @ TAB @ FormatInt (obj_Size e) @ TAB
                          @ MakeDateTimeString fs (rep_ModifyTime r) @ TAB
                          @ getStatusMark (rep_Status r) @ TAB @ obj_Name e @ NL,
                                   ''    '' @ rep_CheckSum r @ TAB @ rep_Path r @ NL])
                        (obj_Replicas e))
            else if l then
              map (\<lambda>r. ''  '' @ rep_Owner r @ TAB @ FormatInt (rep_Number r) @ TAB
                          @ rep_ResourceHierarchy r @ TAB @ FormatInt (obj_Size e) @ TAB
                          @ MakeDateTimeString fs (rep_ModifyTime r) @ TAB
                          @ getStatusMark (rep_Status r) @ TAB @ obj_Name e @ NL)
                (obj_Replicas e)
            else [''  '' @ obj_Name e @ NL])\<rparr>"
  by (simp add: printDataObject_def replicaLine_def Let_def Printf_def foldl_append_stdout)

lemma printDataObjects_lines:
  "printDataObjects fs es v l s
     = s\<lparr>stdout := stdout s @
           concat (map (\<lambda>e. (if v then
                             concat (map (\<lambda>r. [''  '' @ rep_Owner r @ TAB @ FormatInt (rep_Number r) @ TAB
                          @ rep_ResourceHierarchy r @ TAB @ FormatInt (obj_Size e) @ TAB
                          @ MakeDateTimeString fs (rep_ModifyTime r) @ TAB
                          @ getStatusMark (rep_Status r) @ TAB @ obj_Name e @ NL,
                                                  ''    '' @ rep_CheckSum r @ TAB @ rep_Path r @ NL])
                                       (obj_Replicas e))
                           else if l then
                             map (\<lambda>r. ''  '' @ rep_Owner r @ TAB @ FormatInt (rep_Number r) @ TAB
                          @ rep_ResourceHierarchy r @ TAB @ FormatInt (obj_Size e) @ TAB
                          @ MakeDateTimeString fs (rep_ModifyTime r) @ TAB
                          @ getStatusMark (rep_Status r) @ TAB @ obj_Name e @ NL)
                               (obj_Replicas e)
                           else [''  '' @ obj_Name e @ NL]))
             (SliceStable (\<lambda>a b. obj_Name a < obj_Name b) es))\<rparr>"
  unfolding printDataObjects_def printDataObject_lines
  by (rule foldl_append_stdout)

lemma FormatInt_examples:
  "FormatInt 0 = ''0'' \<and> FormatInt 1 = ''1'' \<and> FormatInt 7 = ''7''
   \<and> FormatInt 1024 = ''1024'' \<and> FormatInt (- 7) = ''-7''"
  by code_simp

text \<open>Go's \<open>path.Dir\<close> and \<open>path.Base\<close> on the paths of the runs below.\<close>

lemma demo_path_examples:
  "demo_path_Dir ''/z/home/u/data.txt'' = ''/z/home/u''
   \<and> demo_path_Base ''/z/home/u/data.txt'' = ''data.txt''
   \<and> demo_path_Dir ''/nowhere/x'' = ''/nowhere''
   \<and> demo_path_Base ''/nowhere/x'' = ''x''
   \<and> demo_path_Dir ''/z/home/u/repl/m'' = ''/z/home/u/repl''
   \<and> demo_path_Base ''/z/home/u/repl/m'' = ''m''
   \<and> demo_path_Dir ''/x'' = ''/''
   \<and> demo_path_Dir ''x'' = ''.''"
  by code_simp

lemma listOne_collection:
  assumes "sourcePath = MakeIRODSPath fs (GetCWD fs) (GetHomeDir fs) (GetZone fs) sourcePath0"
    and "GetMetadataConnection fs (world s) = (None, w1)"
    and "GetCollection fs sourcePath w1 = (Inr collection, w2)"
    and "ListSubCollections fs sourcePath w2 = (Inr colls, w3)"
    and "ListDataObjects fs collection w3 = (Inr objs, w4)"
  shows "listOne fs sourcePath0 longFormat veryLongFormat s
     = (None, (printCollections colls (printDataObjects fs objs veryLongFormat longFormat s))
          \<lparr>world := ReturnMetadataConnection fs w4,
            calls := calls s @ [GetMetadataConnectionCall, GetCollectionCall sourcePath,
               ListSubCollectionsCall sourcePath, ListDataObjectsCall collection,
               ReturnMetadataConnectionCall]\<rparr>)"
  using assms
  apply (simp add: listOne_def Let_def invoke_def deferred_def)
  apply (simp add: printCollections_lines printDataObjects_frame)
  done

text \<open>
  C4: when the collection lookup succeeds and both listings are fetched, \<open>listOne\<close>
  returns no error, has fetched the sub-collections and then the data objects, and has
  appended to the output, in every format, first the lines of the data objects in the
  order of the stable sort by name, then one line \<open>"  C- "\<close> and the full path for each
  sub-collection in the order of the stable sort by name. The lines of a data object are
  its bare name after two spaces in the short form, one line for each replica in the long
  format (owner, replica number, resource hierarchy, size, modification time, status mark,
  name) and that line followed by the line of the checksum and the physical path in the
  very long format. Each sorted list is ascending by name, keeps its elements, and keeps
  elements of equal name in their original order.
\<close>

theorem listOne_collection_listing:
  assumes "sourcePath = MakeIRODSPath fs (GetCWD fs) (GetHomeDir fs) (GetZone fs) sourcePath0"
    and "GetMetadataConnection fs (world s) = (None, w1)"
    and "GetCollection fs sourcePath w1 = (Inr collection, w2)"
    and "ListSubCollections fs sourcePath w2 = (Inr colls, w3)"
    and "ListDataObjects fs collection w3 = (Inr objs, w4)"
  shows "fst (listOne fs sourcePath0 longFormat veryLongFormat s) = None
     \<and> calls (snd (listOne fs sourcePath0 longFormat veryLongFormat s))
         = calls s @ [GetMetadataConnectionCall, GetCollectionCall sourcePath,
              ListSubCollectionsCall sourcePath, ListDataObjectsCall collection,
              ReturnMetadataConnectionCall]
     \<and> stdout (snd (listOne fs sourcePath0 longFormat veryLongFormat s))
         = stdout s
           @ concat (map (\<lambda>e. (if veryLongFormat then
                             concat (map (\<lambda>r. [''  '' @ rep_Owner r @ TAB @ FormatInt (rep_Number r) @ TAB
                          @ rep_ResourceHierarchy r @ TAB @ FormatInt (obj_Size e) @ TAB
                          @ MakeDateTimeString fs (rep_ModifyTime r) @ TAB
                          @ getStatusMark (rep_Status r) @ TAB @ obj_Name e @ NL,
                                                  ''    '' @ rep_CheckSum r @ TAB @ rep_Path r @ NL])
                                       (obj_Replicas e))
                           else if longFormat then
                             map (\<lambda>r. ''  '' @ rep_Owner r @ TAB @ FormatInt (rep_Number r) @ TAB
                          @ rep_ResourceHierarchy r @ TAB @ FormatInt (obj_Size e) @ TAB
                          @ MakeDateTimeString fs (rep_ModifyTime r) @ TAB
                          @ getStatusMark (rep_Status r) @ TAB @ obj_Name e @ NL)
                               (obj_Replicas e)
                           else [''  '' @ obj_Name e @ NL]))
               (SliceStable (\<lambda>a b. obj_Name a < obj_Name b) objs))
           @ map (\<lambda>c. ''  C- '' @ coll_Path c @ NL)
               (SliceStable (\<lambda>a b. coll_Name a < coll_Name b) colls)
     \<and> (\<not> longFormat \<and> \<not> veryLongFormat \<longrightarrow>
          stdout (snd (listOne fs sourcePath0 longFormat veryLongFormat s))
            = stdout s
              @ map (\<lambda>e. ''  '' @ obj_Name e @ NL)
                  (SliceStable (\<lambda>a b. obj_Name a < obj_Name b) objs)
              @ map (\<lambda>c. ''  C- '' @ coll_Path c @ NL)
                  (SliceStable (\<lambda>a b. coll_Name a < coll_Name b) colls))
     \<and> sorted (map obj_Name (SliceStable (\<lambda>a b. obj_Name a < obj_Name b) objs))
     \<and> mset (SliceStable (\<lambda>a b. obj_Name a < obj_Name b) objs) = mset objs
     \<and> (\<forall>k. filter (\<lambda>e. obj_Name e = k) (SliceStable (\<lambda>a b. obj_Name a < obj_Name b) objs)
              = filter (\<lambda>e. obj_Name e = k) objs)
     \<and> sorted (map coll_Name (SliceStable (\<lambda>a b. coll_Name a < coll_Name b) colls))
     \<and> mset (SliceStable (\<lambda>a b. coll_Name a < coll_Name b) colls) = mset colls
     \<and> (\<forall>k. filter (\<lambda>c. coll_Name c = k) (SliceStable (\<lambda>a b. coll_Name a < coll_Name b) colls)
              = filter (\<lambda>c. coll_Name c = k) colls)"
proof -
  note run = listOne_collection [OF assms, of longFormat veryLongFormat]
  have result: "fst (listOne fs sourcePath0 longFormat veryLongFormat s) = None"
    by (simp add: run)
  have issued: "calls (snd (listOne fs sourcePath0 longFormat veryLongFormat s))
         = calls s @ [GetMetadataConnectionCall, GetCollectionCall sourcePath,
              ListSubCollectionsCall sourcePath, ListDataObjectsCall collection,
              ReturnMetadataConnectionCall]"
    by (simp add: run)
  have printed: "stdout (snd (listOne fs sourcePath0 longFormat veryLongFormat s))
         = stdout s
           @ concat (map (\<lambda>e. (if veryLongFormat then
                             concat (map (\<lambda>r. [''  '' @ rep_Owner r @ TAB @ FormatInt (rep_Number r) @ TAB
                          @ rep_ResourceHierarchy r @ TAB @ FormatInt (obj_Size e) @ TAB
                          @ MakeDateTimeString fs (rep_ModifyTime r) @ TAB
                          @ getStatusMark (rep_Status r) @ TAB @ obj_Name e @ NL,
                                                  ''    '' @ rep_CheckSum r @ TAB @ rep_Path r @ NL])
                                       (obj_Replicas e))
                           else if longFormat then
                             map (\<lambda>r. ''  '' @ rep_Owner r @ TAB @ FormatInt (rep_Number r) @ TAB
                          @ rep_ResourceHierarchy r @ TAB @ FormatInt (obj_Size e) @ TAB
                          @ MakeDateTimeString fs (rep_ModifyTime r) @ TAB
                          @ getStatusMark (rep_Status r) @ TAB @ obj_Name e @ NL)
                               (obj_Replicas e)
                           else [''  '' @ obj_Name e @ NL]))
               (SliceStable (\<lambda>a b. obj_Name a < obj_Name b) objs))
           @ map (\<lambda>c. ''  C- '' @ coll_Path c @ NL)
               (SliceStable (\<lambda>a b. coll_Name a < coll_Name b) colls)"
    unfolding run printDataObjects_lines printCollections_lines
    by simp
  have short: "\<not> longFormat \<and> \<not> veryLongFormat \<longrightarrow>
          stdout (snd (listOne fs sourcePath0 longFormat veryLongFormat s))
            = stdout s
              @ map (\<lambda>e. ''  '' @ obj_Name e @ NL)
                  (SliceStable (\<lambda>a b. obj_Name a < obj_Name b) objs)
              @ map (\<lambda>c. ''  C- '' @ coll_Path c @ NL)
                  (SliceStable (\<lambda>a b. coll_Name a < coll_Name b) colls)"
    using run
    by (cases longFormat; cases veryLongFormat)
       (simp_all add: printCollections_lines printDataObjects_short)
  have sorting: "sorted (map f (SliceStable (\<lambda>a b. f a < f b) xs))
       \<and> mset (SliceStable (\<lambda>a b. f a < f b) xs) = mset xs
       \<and> (\<forall>k. filter (\<lambda>e. f e = k) (SliceStable (\<lambda>a b. f a < f b) xs) = filter (\<lambda>e. f e = k) xs)"
    for f :: "'x \<Rightarrow> string" and xs
    by (simp add: SliceStable_sort_key sort_key_stable)
  from result issued printed short sorting [of obj_Name objs] sorting [of coll_Name colls]
  show ?thesis
    by blast
qed

theorem listOne_collection_listing_witness:
  "fst (listOne demo_fs ''coll'' False False demo_state) = None
   \<and> stdout (snd (listOne demo_fs ''coll'' False False demo_state))
       = [''  a'' @ NL, ''  b'' @ NL, ''  C- /z/home/u/coll/y'' @ NL, ''  C- /z/home/u/coll/z'' @ NL]
   \<and> stdout (snd (listOne demo_fs ''repl'' True False demo_state))
       = [''  u'' @ TAB @ ''0'' @ TAB @ ''demoResc'' @ TAB @ ''1024'' @ TAB
            @ ''2022-01-01 00:00:00'' @ TAB @ ''&'' @ TAB @ ''m'' @ NL,
          ''  v'' @ TAB @ ''1'' @ TAB @ ''tape'' @ TAB @ ''1024'' @ TAB
            @ ''2022-01-01 00:00:00'' @ TAB @ ''?'' @ TAB @ ''m'' @ NL,
          ''  u'' @ TAB @ ''0'' @ TAB @ ''demoResc'' @ TAB @ ''7'' @ TAB
            @ ''2022-01-01 00:00:00'' @ TAB @ ''X'' @ TAB @ ''n'' @ NL,
          ''  C- /z/home/u/repl/k'' @ NL]
   \<and> stdout (snd (listOne demo_fs ''repl'' False True demo_state))
       = [''  u'' @ TAB @ ''0'' @ TAB @ ''demoResc'' @ TAB @ ''1024'' @ TAB
            @ ''2022-01-01 00:00:00'' @ TAB @ ''&'' @ TAB @ ''m'' @ NL,
          ''    sha2:m0'' @ TAB @ ''/vault/m'' @ NL,
          ''  v'' @ TAB @ ''1'' @ TAB @ ''tape'' @ TAB @ ''1024'' @ TAB
            @ ''2022-01-01 00:00:00'' @ TAB @ ''?'' @ TAB @ ''m'' @ NL,
          ''    sha2:m1'' @ TAB @ ''/tape/m'' @ NL,
          ''  u'' @ TAB @ ''0'' @ TAB @ ''demoResc'' @ TAB @ ''7'' @ TAB
            @ ''2022-01-01 00:00:00'' @ TAB @ ''X'' @ TAB @ ''n'' @ NL,
          ''    sha2:n0'' @ TAB @ ''/vault/n'' @ NL,
          ''  C- /z/home/u/repl/k'' @ NL]"
proof -
  have a1: "''/z/home/u/coll'' = MakeIRODSPath demo_fs (GetCWD demo_fs) (GetHomeDir demo_fs)
              (GetZone demo_fs) ''coll''"
    by (simp add: demo_fs_def demo_join_def)
  have a2: "GetMetadataConnection demo_fs (world demo_state) = (None, 0)"
    by (simp add: demo_fs_def demo_state_def)
  have a3: "GetCollection demo_fs ''/z/home/u/coll'' 0
              = (Inr \<lparr>coll_Path = ''/z/home/u/coll'', coll_Name = ''coll''\<rparr>, 0)"
    by (simp add: demo_fs_def)
  have a4: "ListSubCollections demo_fs ''/z/home/u/coll'' 0
              = (Inr [\<lparr>coll_Path = ''/z/home/u/coll/z'', coll_Name = ''z''\<rparr>,
                      \<lparr>coll_Path = ''/z/home/u/coll/y'', coll_Name = ''y''\<rparr>], 0)"
    by (simp add: demo_fs_def)
  have a5: "ListDataObjects demo_fs \<lparr>coll_Path = ''/z/home/u/coll'', coll_Name = ''coll''\<rparr> 0
              = (Inr [\<lparr>obj_Name = ''b'', obj_Size = 2, obj_Replicas = []\<rparr>,
                      \<lparr>obj_Name = ''a'', obj_Size = 1, obj_Replicas = []\<rparr>], 0)"
    by (simp add: demo_fs_def)
  have r1: "''/z/home/u/repl'' = MakeIRODSPath demo_fs (GetCWD demo_fs) (GetHomeDir demo_fs)
              (GetZone demo_fs) ''repl''"
    by (simp add: demo_fs_def demo_join_def)
  have r3: "GetCollection demo_fs ''/z/home/u/repl'' 0
              = (Inr \<lparr>coll_Path = ''/z/home/u/repl'', coll_Name = ''repl''\<rparr>, 0)"
    by (simp add: demo_fs_def)
  have r4: "ListSubCollections demo_fs ''/z/home/u/repl'' 0
              = (Inr [\<lparr>coll_Path = ''/z/home/u/repl/k'', coll_Name = ''k''\<rparr>], 0)"
    by (simp add: demo_fs_def)
  have r5: "ListDataObjects demo_fs \<lparr>coll_Path = ''/z/home/u/repl'', coll_Name = ''repl''\<rparr> 0
              = (Inr [demo_obj_n, demo_obj_m], 0)"
    by (simp add: demo_fs_def)
  have time: "MakeDateTimeString demo_fs t = ''2022-01-01 00:00:00''" for t
    by (simp add: demo_fs_def)
  have sorted_repl: "SliceStable (\<lambda>a b. obj_Name a < obj_Name b) [demo_obj_n, demo_obj_m]
                       = [demo_obj_m, demo_obj_n]"
    by (simp add: SliceStable_def demo_obj_n_def demo_obj_m_def less_char_def)
  note run = listOne_collection_listing [OF a1 a2 a3 a4 a5, of False False]
  note long = listOne_collection_listing [OF r1 a2 r3 r4 r5, of True False]
  note verylong = listOne_collection_listing [OF r1 a2 r3 r4 r5, of False True]
  have w1: "fst (listOne demo_fs ''coll'' False False demo_state) = None
   \<and> stdout (snd (listOne demo_fs ''coll'' False False demo_state))
       = [''  a'' @ NL, ''  b'' @ NL, ''  C- /z/home/u/coll/y'' @ NL, ''  C- /z/home/u/coll/z'' @ NL]"
    using run [THEN conjunct1]
      run [THEN conjunct2, THEN conjunct2, THEN conjunct2, THEN conjunct1]
    by (simp add: demo_state_def SliceStable_def less_char_def)
  have w2: "stdout (snd (listOne demo_fs ''repl'' True False demo_state))
       = [''  u'' @ TAB @ ''0'' @ TAB @ ''demoResc'' @ TAB @ ''1024'' @ TAB
            @ ''2022-01-01 00:00:00'' @ TAB @ ''&'' @ TAB @ ''m'' @ NL,
          ''  v'' @ TAB @ ''1'' @ TAB @ ''tape'' @ TAB @ ''1024'' @ TAB
            @ ''2022-01-01 00:00:00'' @ TAB @ ''?'' @ TAB @ ''m'' @ NL,
          ''  u'' @ TAB @ ''0'' @ TAB @ ''demoResc'' @ TAB @ ''7'' @ TAB
            @ ''2022-01-01 00:00:00'' @ TAB @ ''X'' @ TAB @ ''n'' @ NL,
          ''  C- /z/home/u/repl/k'' @ NL]"
    unfolding long [THEN conjunct2, THEN conjunct2, THEN conjunct1] sorted_repl
    using FormatInt_examples
    by (simp add: time demo_state_def demo_obj_n_def demo_obj_m_def getStatusMark_def
        SliceStable_def TAB_def NL_def)
  have w3: "stdout (snd (listOne demo_fs ''repl'' False True demo_state))
       = [''  u'' @ TAB @ ''0'' @ TAB @ ''demoResc'' @ TAB @ ''1024'' @ TAB
            @ ''2022-01-01 00:00:00'' @ TAB @ ''&'' @ TAB @ ''m'' @ NL,
          ''    sha2:m0'' @ TAB @ ''/vault/m'' @ NL,
          ''  v'' @ TAB @ ''1'' @ TAB @ ''tape'' @ TAB @ ''1024'' @ TAB
            @ ''2022-01-01 00:00:00'' @ TAB @ ''?'' @ TAB @ ''m'' @ NL,
          ''    sha2:m1'' @ TAB @ ''/tape/m'' @ NL,
          ''  u'' @ TAB @ ''0'' @ TAB @ ''demoResc'' @ TAB @ ''7'' @ TAB
            @ ''2022-01-01 00:00:00'' @ TAB @ ''X'' @ TAB @ ''n'' @ NL,
          ''    sha2:n0'' @ TAB @ ''/vault/n'' @ NL,
          ''  C- /z/home/u/repl/k'' @ NL]"
    unfolding verylong [THEN conjunct2, THEN conjunct2, THEN conjunct1] sorted_repl
    using FormatInt_examples
    by (simp add: time demo_state_def demo_obj_n_def demo_obj_m_def getStatusMark_def
        SliceStable_def TAB_def NL_def)
  from w1 w2 w3 show ?thesis
    by blast
qed

text \<open>
  C6: when the first collection lookup fails, \<open>listOne\<close> returns that error (wrapped)
  with nothing printed and no further lookup, unless it is a not-found error; then it
  looks the parent collection up: an error of that lookup is returned with nothing printed
  and no retry, and otherwise the data object of the base name is fetched from the parent
  and its lines are appended to the output: the bare name after two spaces in the short
  form, one line for each replica in the long format, and that line followed by the line
  of the checksum and the physical path in the very long format.
\<close>

theorem listOne_fallback:
  assumes "sourcePath = MakeIRODSPath fs (GetCWD fs) (GetHomeDir fs) (GetZone fs) sourcePath0"
    and "GetMetadataConnection fs (world s) = (None, w1)"
    and "GetCollection fs sourcePath w1 = (Inl err, w2)"
  shows "(\<not> IsFileNotFoundError fs err \<longrightarrow>
            listOne fs sourcePath0 longFormat veryLongFormat s
              = (Some (Wrapped (''failed to get collection '' @ sourcePath @ '': '') err),
                 s\<lparr>world := ReturnMetadataConnection fs w2,
                   calls := calls s @ [GetMetadataConnectionCall, GetCollectionCall sourcePath,
                      ReturnMetadataConnectionCall]\<rparr>))
       \<and> (IsFileNotFoundError fs err \<longrightarrow>
            (\<forall>err2 w3. GetCollection fs (path_Dir fs sourcePath) w2 = (Inl err2, w3) \<longrightarrow>
               listOne fs sourcePath0 longFormat veryLongFormat s
                 = (Some (Wrapped (''failed to get collection '' @ path_Dir fs sourcePath @ '': '')
                            err2),
                    s\<lparr>world := ReturnMetadataConnection fs w3,
                      calls := calls s @ [GetMetadataConnectionCall, GetCollectionCall sourcePath,
                         GetCollectionCall (path_Dir fs sourcePath),
                         ReturnMetadataConnectionCall]\<rparr>))
          \<and> (\<forall>parentCollection w3 entry w4.
               GetCollection fs (path_Dir fs sourcePath) w2 = (Inr parentCollection, w3)
               \<and> GetDataObject fs parentCollection (path_Base fs sourcePath) w3 = (Inr entry, w4)
               \<longrightarrow>
               listOne fs sourcePath0 longFormat veryLongFormat s
                 = (None,
                    s\<lparr>world := ReturnMetadataConnection fs w4,
                      calls := calls s @ [GetMetadataConnectionCall,
                         GetCollectionCall sourcePath,
                         GetCollectionCall (path_Dir fs sourcePath),
                         GetDataObjectCall parentCollection (path_Base fs sourcePath),
                         ReturnMetadataConnectionCall],
                      stdout := stdout s @
                        (if veryLongFormat then
                           concat (map (\<lambda>r. [''  '' @ rep_Owner r @ TAB @ FormatInt (rep_Number r) @ TAB
                                     @ rep_ResourceHierarchy r @ TAB
                                     @ FormatInt (obj_Size entry) @ TAB
                                     @ MakeDateTimeString fs (rep_ModifyTime r) @ TAB
                                     @ getStatusMark (rep_Status r) @ TAB
                                     @ obj_Name entry @ NL,
                                                ''    '' @ rep_CheckSum r @ TAB @ rep_Path r @ NL])
                                     (obj_Replicas entry))
                         else if longFormat then
                           map (\<lambda>r. ''  '' @ rep_Owner r @ TAB @ FormatInt (rep_Number r) @ TAB
                                     @ rep_ResourceHierarchy r @ TAB
                                     @ FormatInt (obj_Size entry) @ TAB
                                     @ MakeDateTimeString fs (rep_ModifyTime r) @ TAB
                                     @ getStatusMark (rep_Status r) @ TAB
                                     @ obj_Name entry @ NL)
                             (obj_Replicas entry)
                         else [''  '' @ obj_Name entry @ NL])\<rparr>)))"
  using assms
  by (simp add: listOne_def Let_def invoke_def deferred_def printDataObject_lines)

theorem listOne_fallback_witness:
  "listOne demo_fs ''data.txt'' False False demo_state
     = (None, \<lparr>world = 0,
               calls = [GetMetadataConnectionCall, GetCollectionCall ''/z/home/u/data.txt'',
                  GetCollectionCall ''/z/home/u'',
                  GetDataObjectCall \<lparr>coll_Path = ''/z/home/u'', coll_Name = ''u''\<rparr> ''data.txt'',
                  ReturnMetadataConnectionCall],
               stdout = [''  data.txt'' @ NL]\<rparr>)
   \<and> listOne demo_fs ''/z/locked'' False False demo_state
     = (Some (Wrapped ''failed to get collection /z/locked: '' (External ''permission denied'')),
        \<lparr>world = 0,
         calls = [GetMetadataConnectionCall, GetCollectionCall ''/z/locked'',
                  ReturnMetadataConnectionCall],
         stdout = []\<rparr>)
   \<and> listOne demo_fs ''/nowhere/x'' False False demo_state
     = (Some (Wrapped ''failed to get collection /nowhere: '' (External ''not found'')),
        \<lparr>world = 0,
         calls = [GetMetadataConnectionCall, GetCollectionCall ''/nowhere/x'',
                  GetCollectionCall ''/nowhere'', ReturnMetadataConnectionCall],
         stdout = []\<rparr>)
   \<and> listOne demo_fs ''repl/m'' True False demo_state
     = (None, \<lparr>world = 0,
               calls = [GetMetadataConnectionCall, GetCollectionCall ''/z/home/u/repl/m'',
                  GetCollectionCall ''/z/home/u/repl'',
                  GetDataObjectCall \<lparr>coll_Path = ''/z/home/u/repl'', coll_Name = ''repl''\<rparr> ''m'',
                  ReturnMetadataConnectionCall],
               stdout = [''  u'' @ TAB @ ''0'' @ TAB @ ''demoResc'' @ TAB @ ''1024'' @ TAB
                           @ ''2022-01-01 00:00:00'' @ TAB @ ''&'' @ TAB @ ''m'' @ NL,
                         ''  v'' @ TAB @ ''1'' @ TAB @ ''tape'' @ TAB @ ''1024'' @ TAB
                           @ ''2022-01-01 00:00:00'' @ TAB @ ''?'' @ TAB @ ''m'' @ NL]\<rparr>)
   \<and> listOne demo_fs ''repl/m'' False True demo_state
     = (None, \<lparr>world = 0,
               calls = [GetMetadataConnectionCall, GetCollectionCall ''/z/home/u/repl/m'',
                  GetCollectionCall ''/z/home/u/repl'',
                  GetDataObjectCall \<lparr>coll_Path = ''/z/home/u/repl'', coll_Name = ''repl''\<rparr> ''m'',
                  ReturnMetadataConnectionCall],
               stdout = [''  u'' @ TAB @ ''0'' @ TAB @ ''demoResc'' @ TAB @ ''1024'' @ TAB
                           @ ''2022-01-01 00:00:00'' @ TAB @ ''&'' @ TAB @ ''m'' @ NL,
                         ''    sha2:m0'' @ TAB @ ''/vault/m'' @ NL,
                         ''  v'' @ TAB @ ''1'' @ TAB @ ''tape'' @ TAB @ ''1024'' @ TAB
                           @ ''2022-01-01 00:00:00'' @ TAB @ ''?'' @ TAB @ ''m'' @ NL,
                         ''    sha2:m1'' @ TAB @ ''/tape/m'' @ NL]\<rparr>)"
proof -
  have a1: "''/z/home/u/data.txt'' = MakeIRODSPath demo_fs (GetCWD demo_fs) (GetHomeDir demo_fs)
              (GetZone demo_fs) ''data.txt''"
    by (simp add: demo_fs_def demo_join_def)
  have a2: "GetMetadataConnection demo_fs (world demo_state) = (None, 0)"
    by (simp add: demo_fs_def demo_state_def)
  have a3: "GetCollection demo_fs ''/z/home/u/data.txt'' 0 = (Inl (External ''not found''), 0)"
    by (simp add: demo_fs_def)
  have b1: "''/z/locked'' = MakeIRODSPath demo_fs (GetCWD demo_fs) (GetHomeDir demo_fs)
              (GetZone demo_fs) ''/z/locked''"
    by (simp add: demo_fs_def demo_join_def)
  have b3: "GetCollection demo_fs ''/z/locked'' 0 = (Inl (External ''permission denied''), 0)"
    by (simp add: demo_fs_def)
  have d1: "''/nowhere/x'' = MakeIRODSPath demo_fs (GetCWD demo_fs) (GetHomeDir demo_fs)
              (GetZone demo_fs) ''/nowhere/x''"
    by (simp add: demo_fs_def demo_join_def)
  have d3: "GetCollection demo_fs ''/nowhere/x'' 0 = (Inl (External ''not found''), 0)"
    by (simp add: demo_fs_def)
  have e1: "''/z/home/u/repl/m'' = MakeIRODSPath demo_fs (GetCWD demo_fs) (GetHomeDir demo_fs)
              (GetZone demo_fs) ''repl/m''"
    by (simp add: demo_fs_def demo_join_def)
  have e3: "GetCollection demo_fs ''/z/home/u/repl/m'' 0 = (Inl (External ''not found''), 0)"
    by (simp add: demo_fs_def)
  have c1: "IsFileNotFoundError demo_fs (External ''not found'')"
    and c2: "\<not> IsFileNotFoundError demo_fs (External ''permission denied'')"
    and c5: "GetCollection demo_fs ''/z/home/u'' 0
               = (Inr \<lparr>coll_Path = ''/z/home/u'', coll_Name = ''u''\<rparr>, 0)"
    and c6: "GetDataObject demo_fs \<lparr>coll_Path = ''/z/home/u'', coll_Name = ''u''\<rparr> ''data.txt'' 0
               = (Inr \<lparr>obj_Name = ''data.txt'', obj_Size = 3, obj_Replicas = []\<rparr>, 0)"
    and c7: "ReturnMetadataConnection demo_fs 0 = 0"
    and c9: "GetCollection demo_fs ''/nowhere'' 0 = (Inl (External ''not found''), 0)"
    and c10: "GetCollection demo_fs ''/z/home/u/repl'' 0
               = (Inr \<lparr>coll_Path = ''/z/home/u/repl'', coll_Name = ''repl''\<rparr>, 0)"
    and c11: "GetDataObject demo_fs \<lparr>coll_Path = ''/z/home/u/repl'', coll_Name = ''repl''\<rparr> ''m'' 0
               = (Inr demo_obj_m, 0)"
    and c12: "MakeDateTimeString demo_fs t = ''2022-01-01 00:00:00''"
    for t
    by (simp_all add: demo_fs_def)
  have p1: "path_Dir demo_fs ''/z/home/u/data.txt'' = ''/z/home/u''"
    and p2: "path_Base demo_fs ''/z/home/u/data.txt'' = ''data.txt''"
    and p3: "path_Dir demo_fs ''/nowhere/x'' = ''/nowhere''"
    and p4: "path_Dir demo_fs ''/z/home/u/repl/m'' = ''/z/home/u/repl''"
    and p5: "path_Base demo_fs ''/z/home/u/repl/m'' = ''m''"
    using demo_path_examples by (simp_all add: demo_fs_def)
  have w1: "listOne demo_fs ''data.txt'' False False demo_state
     = (None, \<lparr>world = 0,
               calls = [GetMetadataConnectionCall, GetCollectionCall ''/z/home/u/data.txt'',
                  GetCollectionCall ''/z/home/u'',
                  GetDataObjectCall \<lparr>coll_Path = ''/z/home/u'', coll_Name = ''u''\<rparr> ''data.txt'',
                  ReturnMetadataConnectionCall],
               stdout = [''  data.txt'' @ NL]\<rparr>)"
    using listOne_fallback [OF a1 a2 a3, of False False]
    by (simp add: c1 c5 c6 c7 p1 p2 demo_state_def)
  have w2: "listOne demo_fs ''/z/locked'' False False demo_state
     = (Some (Wrapped ''failed to get collection /z/locked: '' (External ''permission denied'')),
        \<lparr>world = 0,
         calls = [GetMetadataConnectionCall, GetCollectionCall ''/z/locked'',
                  ReturnMetadataConnectionCall],
         stdout = []\<rparr>)"
    using listOne_fallback [OF b1 a2 b3, of False False]
    by (simp add: c2 c7 demo_state_def)
  have w3: "listOne demo_fs ''/nowhere/x'' False False demo_state
     = (Some (Wrapped ''failed to get collection /nowhere: '' (External ''not found'')),
        \<lparr>world = 0,
         calls = [GetMetadataConnectionCall, GetCollectionCall ''/nowhere/x'',
                  GetCollectionCall ''/nowhere'', ReturnMetadataConnectionCall],
         stdout = []\<rparr>)"
    using listOne_fallback [OF d1 a2 d3, of False False]
    by (simp add: c1 c7 c9 p3 demo_state_def)
  have w4: "listOne demo_fs ''repl/m'' True False demo_state
     = (None, \<lparr>world = 0,
               calls = [GetMetadataConnectionCall, GetCollectionCall ''/z/home/u/repl/m'',
                  GetCollectionCall ''/z/home/u/repl'',
                  GetDataObjectCall \<lparr>coll_Path = ''/z/home/u/repl'', coll_Name = ''repl''\<rparr> ''m'',
                  ReturnMetadataConnectionCall],
               stdout = [''  u'' @ TAB @ ''0'' @ TAB @ ''demoResc'' @ TAB @ ''1024'' @ TAB
                           @ ''2022-01-01 00:00:00'' @ TAB @ ''&'' @ TAB @ ''m'' @ NL,
                         ''  v'' @ TAB @ ''1'' @ TAB @ ''tape'' @ TAB @ ''1024'' @ TAB
                           @ ''2022-01-01 00:00:00'' @ TAB @ ''?'' @ TAB @ ''m'' @ NL]\<rparr>)"
    using listOne_fallback [OF e1 a2 e3, of True False] FormatInt_examples
    by (simp add: c1 c7 c10 c11 c12 p4 p5 demo_state_def demo_obj_m_def getStatusMark_def
        TAB_def NL_def)
  have w5: "listOne demo_fs ''repl/m'' False True demo_state
     = (None, \<lparr>world = 0,
               calls = [GetMetadataConnectionCall, GetCollectionCall ''/z/home/u/repl/m'',
                  GetCollectionCall ''/z/home/u/repl'',
                  GetDataObjectCall \<lparr>coll_Path = ''/z/home/u/repl'', coll_Name = ''repl''\<rparr> ''m'',
                  ReturnMetadataConnectionCall],
               stdout = [''  u'' @ TAB @ ''0'' @ TAB @ ''demoResc'' @ TAB @ ''1024'' @ TAB
                           @ ''2022-01-01 00:00:00'' @ TAB @ ''&'' @ TAB @ ''m'' @ NL,
                         ''    sha2:m0'' @ TAB @ ''/vault/m'' @ NL,
                         ''  v'' @ TAB @ ''1'' @ TAB @ ''tape'' @ TAB @ ''1024'' @ TAB
                           @ ''2022-01-01 00:00:00'' @ TAB @ ''?'' @ TAB @ ''m'' @ NL,
                         ''    sha2:m1'' @ TAB @ ''/tape/m'' @ NL]\<rparr>)"
    using listOne_fallback [OF e1 a2 e3, of False True] FormatInt_examples
    by (simp add: c1 c7 c10 c11 c12 p4 p5 demo_state_def demo_obj_m_def getStatusMark_def
        TAB_def NL_def)
  from w1 w2 w3 w4 w5 show ?thesis
    by blast
qed

section \<open>Properties of the commands\<close>

lemma boolFlag_malformed:
  assumes "command name = Some v" and "snd (ParseBool v) = Some err"
  shows "boolFlag command name = False"
  using assms by (cases "ParseBool v") (simp add: boolFlag_def)

lemma boolFlag_false_update:
  assumes "command name = Some v" and "snd (ParseBool v) = Some err"
  shows "boolFlag (command(name \<mapsto> ''false'')) n = boolFlag command n"
proof (cases "n = name")
  case True
  have "boolFlag (command(name \<mapsto> ''false'')) name = False"
    by (simp add: boolFlag_def ParseBool_def)
  with True boolFlag_malformed [where command = command, OF assms] show ?thesis by simp
next
  case False
  then show ?thesis by (simp add: boolFlag_def)
qed

text \<open>
  C9: when \<open>strconv.ParseBool\<close> fails on the string of a flag, the flag's value is false,
  and \<open>processRmCommand\<close> and \<open>processLsCommand\<close> run exactly as they do when the flag's
  string is "false" (given that the common flag processing, which is not among the
  sources, does not read that flag): the parse error is returned by neither.
\<close>

theorem malformed_flag_defaults_to_false:
  assumes "command name = Some v" and "snd (ParseBool v) = Some err"
  shows "boolFlag command name = False
     \<and> (ProcessCommonFlags fs (command(name \<mapsto> ''false'')) = ProcessCommonFlags fs command \<longrightarrow>
          processRmCommand fs command args s
            = processRmCommand fs (command(name \<mapsto> ''false'')) args s
        \<and> processLsCommand fs command args s
            = processLsCommand fs (command(name \<mapsto> ''false'')) args s)"
proof -
  have eq: "boolFlag (command(name \<mapsto> ''false'')) = boolFlag command"
    by (rule ext) (rule boolFlag_false_update [where command = command, OF assms])
  show ?thesis
    unfolding processRmCommand_def processLsCommand_def eq
    by (simp add: boolFlag_malformed [where command = command, OF assms])
qed

theorem malformed_flag_defaults_to_false_witness:
  "snd (ParseBool ''maybe'') \<noteq> None
   \<and> boolFlag [''recurse'' \<mapsto> ''maybe''] ''recurse'' = False
   \<and> processRmCommand demo_fs [''recurse'' \<mapsto> ''maybe''] [''coll''] demo_state
       = processRmCommand demo_fs [''recurse'' \<mapsto> ''false''] [''coll''] demo_state
   \<and> fst (processRmCommand demo_fs [''recurse'' \<mapsto> ''false''] [''coll''] demo_state)
       = Some (Wrapped ''failed to perform rm coll: ''
                 (Errorf ''cannot remove a collection, recurse is not set''))"
proof -
  have a1: "[''recurse'' \<mapsto> ''maybe''] ''recurse'' = Some ''maybe''"
    by simp
  have a2: "snd (ParseBool ''maybe'')
              = Some (External ''strconv.ParseBool: parsing maybe: invalid syntax'')"
    by (simp add: ParseBool_def)
  have a3: "ProcessCommonFlags demo_fs ([''recurse'' \<mapsto> ''maybe''](''recurse'' \<mapsto> ''false''))
              = ProcessCommonFlags demo_fs [''recurse'' \<mapsto> ''maybe'']"
    by (simp add: demo_fs_def)
  have run: "fst (processRmCommand demo_fs [''recurse'' \<mapsto> ''false''] [''coll''] demo_state)
       = Some (Wrapped ''failed to perform rm coll: ''
                 (Errorf ''cannot remove a collection, recurse is not set''))"
    by (simp add: processRmCommand_def removeOne_def invoke_def deferred_def boolFlag_def
        ParseBool_def Let_def demo_fs_def demo_state_def demo_join_def demo_dir_def)
  show ?thesis
    using malformed_flag_defaults_to_false
        [where command = "[''recurse'' \<mapsto> ''maybe'']" and fs = demo_fs
           and args = "[''coll'']" and s = demo_state, OF a1 a2] a2 a3 run
    by simp
qed

lemma listEach_append:
  "listEach fs l v (xs @ ys) s
     = (case listEach fs l v xs s of
          (Some e, s1) \<Rightarrow> (Some e, s1)
        | (None, s1) \<Rightarrow> listEach fs l v ys s1)"
  by (induction xs arbitrary: s) (auto split: prod.splits option.splits)

lemma listOne_first_calls:
  assumes "GetMetadataConnection fs (world s) = (None, w)"
  shows "\<exists>rest. calls (snd (listOne fs p l v s))
           = calls s @ [GetMetadataConnectionCall,
               GetCollectionCall (MakeIRODSPath fs (GetCWD fs) (GetHomeDir fs) (GetZone fs) p)]
             @ rest"
  using assms
  by (auto simp: listOne_def Let_def invoke_def deferred_def printDataObject_frame
      printDataObjects_frame printCollections_frame
      split: prod.splits sum.splits option.splits)

text \<open>
  C10: once the common flags, the missing fields and the client are set up,
  \<open>processLsCommand\<close> with no argument runs as with the one argument \<open>.\<close>: one
  \<open>listOne\<close> on \<open>.\<close>, then the release. With arguments it runs \<open>listOne\<close> on each
  in order; when one fails after the ones before it succeeded, its wrapped error is
  returned, with the state \<open>listOne\<close> left and the release after it: no later path is
  listed. Where \<open>MakeIRODSPath\<close> follows the spec's rule for \<open>.\<close>, the collection that
  \<open>listOne\<close> on \<open>.\<close> looks up is the current working collection.
\<close>

theorem processLsCommand_paths:
  fixes fs :: "'w irods"
  assumes "ProcessCommonFlags fs command (world s) = (Inr True, w1)"
    and "InputMissingFields fs w1 = (Inr updated, w2)"
    and "GetIRODSFSClient fs w2 = (None, w3)"
    and "s3 = s\<lparr>world := w3, calls := calls s @ [ProcessCommonFlagsCall,
                   InputMissingFieldsCall, GetIRODSFSClientCall]\<rparr>"
    and "l = boolFlag command ''long''"
    and "v = boolFlag command ''verylong''"
  shows "processLsCommand fs command [] s = processLsCommand fs command [''.''] s
     \<and> processLsCommand fs command [] s
         = deferred ReleaseCall (Release fs)
             (\<lambda>s4. case listOne fs ''.'' l v s4 of
                      (Some err, s5) \<Rightarrow> (Some (Wrapped ''failed to perform ls .: '' err), s5)
                    | (None, s5) \<Rightarrow> (None, s5)) s3
     \<and> (args \<noteq> [] \<longrightarrow>
          processLsCommand fs command args s
            = deferred ReleaseCall (Release fs) (listEach fs l v args) s3)
     \<and> (\<forall>xs ys s0. listEach fs l v (xs @ ys) s0
            = (case listEach fs l v xs s0 of
                 (Some e, s1) \<Rightarrow> (Some e, s1)
               | (None, s1) \<Rightarrow> listEach fs l v ys s1))
     \<and> (\<forall>before p after s1 err s2.
            args = before @ p # after \<and> listEach fs l v before s3 = (None, s1)
            \<and> listOne fs p l v s1 = (Some err, s2) \<longrightarrow>
            processLsCommand fs command args s
              = (Some (Wrapped (''failed to perform ls '' @ p @ '': '') err),
                 s2\<lparr>world := Release fs (world s2), calls := calls s2 @ [ReleaseCall]\<rparr>))
     \<and> (resolves_dot_to_cwd fs \<longrightarrow>
          (\<forall>s0 w. GetMetadataConnection fs (world s0) = (None, w) \<longrightarrow>
             (\<exists>rest. calls (snd (listOne fs ''.'' l v s0))
                = calls s0 @ [GetMetadataConnectionCall, GetCollectionCall (GetCWD fs)] @ rest)))"
proof -
  have run: "processLsCommand fs command as s
          = deferred ReleaseCall (Release fs)
              (listEach fs l v (if length as = 0 then [''.''] else as)) s3" for as
    using assms by (simp add: processLsCommand_def invoke_def Let_def)
  have one: "listEach fs l v [''.''] =
     (\<lambda>s4. case listOne fs ''.'' l v s4 of
              (Some err, s5) \<Rightarrow> (Some (Wrapped ''failed to perform ls .: '' err), s5)
            | (None, s5) \<Rightarrow> (None, s5))"
    by (auto split: prod.splits option.splits)
  have c1: "processLsCommand fs command [] s = processLsCommand fs command [''.''] s"
    by (simp add: run)
  have c2: "processLsCommand fs command [] s
         = deferred ReleaseCall (Release fs)
             (\<lambda>s4. case listOne fs ''.'' l v s4 of
                      (Some err, s5) \<Rightarrow> (Some (Wrapped ''failed to perform ls .: '' err), s5)
                    | (None, s5) \<Rightarrow> (None, s5)) s3"
    using one by (simp add: run)
  have c3: "args \<noteq> [] \<longrightarrow>
          processLsCommand fs command args s
            = deferred ReleaseCall (Release fs) (listEach fs l v args) s3"
    by (simp add: run)
  have c5: "\<forall>before p after s1 err s2.
            args = before @ p # after \<and> listEach fs l v before s3 = (None, s1)
            \<and> listOne fs p l v s1 = (Some err, s2) \<longrightarrow>
            processLsCommand fs command args s
              = (Some (Wrapped (''failed to perform ls '' @ p @ '': '') err),
                 s2\<lparr>world := Release fs (world s2), calls := calls s2 @ [ReleaseCall]\<rparr>)"
    by (auto simp: run listEach_append deferred_def invoke_def)
  have c6: "resolves_dot_to_cwd fs \<longrightarrow>
          (\<forall>s0 w. GetMetadataConnection fs (world s0) = (None, w) \<longrightarrow>
             (\<exists>rest. calls (snd (listOne fs ''.'' l v s0))
                = calls s0 @ [GetMetadataConnectionCall, GetCollectionCall (GetCWD fs)] @ rest))"
  proof (intro impI allI)
    fix s0 :: "'w state" and w :: 'w
    assume r: "resolves_dot_to_cwd fs" and g: "GetMetadataConnection fs (world s0) = (None, w)"
    from listOne_first_calls [where fs = fs and s = s0 and p = "''.''" and l = l and v = v] g r
    show "\<exists>rest. calls (snd (listOne fs ''.'' l v s0))
                = calls s0 @ [GetMetadataConnectionCall, GetCollectionCall (GetCWD fs)] @ rest"
      by (simp add: resolves_dot_to_cwd_def)
  qed
  from c1 c2 c3 c5 c6 listEach_append [of fs l v] show ?thesis
    by blast
qed

theorem processLsCommand_paths_witness:
  "processLsCommand demo_fs Map.empty [] demo_state
     = (None, \<lparr>world = 0,
               calls = [ProcessCommonFlagsCall, InputMissingFieldsCall, GetIRODSFSClientCall,
                  GetMetadataConnectionCall, GetCollectionCall ''/z/home/u'',
                  ListSubCollectionsCall ''/z/home/u'',
                  ListDataObjectsCall \<lparr>coll_Path = ''/z/home/u'', coll_Name = ''u''\<rparr>,
                  ReturnMetadataConnectionCall, ReleaseCall],
               stdout = []\<rparr>)
   \<and> processLsCommand demo_fs Map.empty [''coll'', ''/z/locked'', ''data.txt''] demo_state
     = (Some (Wrapped ''failed to perform ls /z/locked: ''
                (Wrapped ''failed to get collection /z/locked: ''
                   (External ''permission denied''))),
        \<lparr>world = 0,
         calls = [ProcessCommonFlagsCall, InputMissingFieldsCall, GetIRODSFSClientCall,
            GetMetadataConnectionCall, GetCollectionCall ''/z/home/u/coll'',
            ListSubCollectionsCall ''/z/home/u/coll'',
            ListDataObjectsCall \<lparr>coll_Path = ''/z/home/u/coll'', coll_Name = ''coll''\<rparr>,
            ReturnMetadataConnectionCall,
            GetMetadataConnectionCall, GetCollectionCall ''/z/locked'',
            ReturnMetadataConnectionCall, ReleaseCall],
         stdout = [''  a'' @ NL, ''  b'' @ NL, ''  C- /z/home/u/coll/y'' @ NL,
                   ''  C- /z/home/u/coll/z'' @ NL]\<rparr>)
   \<and> resolves_dot_to_cwd demo_fs
   \<and> (\<exists>rest. calls (snd (listOne demo_fs ''.'' False False demo_state))
          = [GetMetadataConnectionCall, GetCollectionCall ''/z/home/u''] @ rest)"
proof -
  define s3 :: "nat state" where
    "s3 = demo_state\<lparr>world := 0, calls := calls demo_state @ [ProcessCommonFlagsCall,
             InputMissingFieldsCall, GetIRODSFSClientCall]\<rparr>"
  define s1 :: "nat state" where
    "s1 = \<lparr>world = 0,
          calls = [ProcessCommonFlagsCall, InputMissingFieldsCall, GetIRODSFSClientCall,
            GetMetadataConnectionCall, GetCollectionCall ''/z/home/u/coll'',
            ListSubCollectionsCall ''/z/home/u/coll'',
            ListDataObjectsCall \<lparr>coll_Path = ''/z/home/u/coll'', coll_Name = ''coll''\<rparr>,
            ReturnMetadataConnectionCall],
          stdout = [''  a'' @ NL, ''  b'' @ NL, ''  C- /z/home/u/coll/y'' @ NL,
                   ''  C- /z/home/u/coll/z'' @ NL]\<rparr>"
  define s2 :: "nat state" where
    "s2 = s1\<lparr>calls := calls s1 @ [GetMetadataConnectionCall, GetCollectionCall ''/z/locked'',
            ReturnMetadataConnectionCall]\<rparr>"
  have a1: "ProcessCommonFlags demo_fs Map.empty (world demo_state) = (Inr True, 0)"
    and a2: "InputMissingFields demo_fs 0 = (Inr False, 0)"
    and a3: "GetIRODSFSClient demo_fs 0 = (None, 0)"
    by (simp_all add: demo_fs_def demo_state_def)
  have l: "False = boolFlag Map.empty ''long''" and v: "False = boolFlag Map.empty ''verylong''"
    by (simp_all add: boolFlag_def)
  note T = processLsCommand_paths [OF a1 a2 a3 s3_def l v]
  have dot: "listOne demo_fs ''.'' False False s3
      = (None, s3\<lparr>calls := calls s3 @ [GetMetadataConnectionCall, GetCollectionCall ''/z/home/u'',
                  ListSubCollectionsCall ''/z/home/u'',
                  ListDataObjectsCall \<lparr>coll_Path = ''/z/home/u'', coll_Name = ''u''\<rparr>,
                  ReturnMetadataConnectionCall]\<rparr>)"
    by (simp add: listOne_def invoke_def deferred_def Let_def demo_fs_def demo_join_def
        printCollections_def printDataObjects_def SliceStable_def)
  have before: "listEach demo_fs False False [''coll''] s3 = (None, s1)"
    by (simp add: listOne_def invoke_def deferred_def Let_def demo_fs_def demo_join_def
        printCollections_def printDataObjects_def printDataObject_def Printf_def
        SliceStable_def less_char_def s3_def s1_def demo_state_def)
  have failing: "listOne demo_fs ''/z/locked'' False False s1
      = (Some (Wrapped ''failed to get collection /z/locked: '' (External ''permission denied'')),
         s2)"
    by (simp add: listOne_def invoke_def deferred_def Let_def demo_fs_def demo_join_def
        s1_def s2_def)
  have split: "[''coll'', ''/z/locked'', ''data.txt''] = [''coll''] @ ''/z/locked'' # [''data.txt'']"
    by simp
  have first: "processLsCommand demo_fs Map.empty [] demo_state
     = (None, s3\<lparr>calls := calls s3 @ [GetMetadataConnectionCall, GetCollectionCall ''/z/home/u'',
                  ListSubCollectionsCall ''/z/home/u'',
                  ListDataObjectsCall \<lparr>coll_Path = ''/z/home/u'', coll_Name = ''u''\<rparr>,
                  ReturnMetadataConnectionCall, ReleaseCall],
                 world := Release demo_fs (world s3)\<rparr>)"
    using T [of "[]", THEN conjunct2, THEN conjunct1]
    by (simp add: dot deferred_def invoke_def)
  have second: "processLsCommand demo_fs Map.empty [''coll'', ''/z/locked'', ''data.txt''] demo_state
     = (Some (Wrapped (''failed to perform ls '' @ ''/z/locked'' @ '': '')
                (Wrapped ''failed to get collection /z/locked: ''
                   (External ''permission denied''))),
        s2\<lparr>world := Release demo_fs (world s2), calls := calls s2 @ [ReleaseCall]\<rparr>)"
    using T [of "[''coll'', ''/z/locked'', ''data.txt'']", THEN conjunct2, THEN conjunct2,
             THEN conjunct2, THEN conjunct2, THEN conjunct1] split before failing
    by blast
  have resolves: "resolves_dot_to_cwd demo_fs"
    by (simp add: resolves_dot_to_cwd_def demo_fs_def demo_join_def)
  have conn: "GetMetadataConnection demo_fs (world demo_state) = (None, 0)"
    by (simp add: demo_fs_def demo_state_def)
  have "\<exists>rest. calls (snd (listOne demo_fs ''.'' False False demo_state))
          = calls demo_state @ [GetMetadataConnectionCall, GetCollectionCall (GetCWD demo_fs)]
            @ rest"
    using T [of "[]", THEN conjunct2, THEN conjunct2, THEN conjunct2, THEN conjunct2,
             THEN conjunct2] resolves conn
    by blast
  then have third: "\<exists>rest. calls (snd (listOne demo_fs ''.'' False False demo_state))
          = [GetMetadataConnectionCall, GetCollectionCall ''/z/home/u''] @ rest"
    by (simp add: demo_state_def demo_fs_def)
  have both: "processLsCommand demo_fs Map.empty [] demo_state
     = (None, \<lparr>world = 0,
               calls = [ProcessCommonFlagsCall, InputMissingFieldsCall, GetIRODSFSClientCall,
                  GetMetadataConnectionCall, GetCollectionCall ''/z/home/u'',
                  ListSubCollectionsCall ''/z/home/u'',
                  ListDataObjectsCall \<lparr>coll_Path = ''/z/home/u'', coll_Name = ''u''\<rparr>,
                  ReturnMetadataConnectionCall, ReleaseCall],
               stdout = []\<rparr>)
   \<and> processLsCommand demo_fs Map.empty [''coll'', ''/z/locked'', ''data.txt''] demo_state
     = (Some (Wrapped ''failed to perform ls /z/locked: ''
                (Wrapped ''failed to get collection /z/locked: ''
                   (External ''permission denied''))),
        \<lparr>world = 0,
         calls = [ProcessCommonFlagsCall, InputMissingFieldsCall, GetIRODSFSClientCall,
            GetMetadataConnectionCall, GetCollectionCall ''/z/home/u/coll'',
            ListSubCollectionsCall ''/z/home/u/coll'',
            ListDataObjectsCall \<lparr>coll_Path = ''/z/home/u/coll'', coll_Name = ''coll''\<rparr>,
            ReturnMetadataConnectionCall,
            GetMetadataConnectionCall, GetCollectionCall ''/z/locked'',
            ReturnMetadataConnectionCall, ReleaseCall],
         stdout = [''  a'' @ NL, ''  b'' @ NL, ''  C- /z/home/u/coll/y'' @ NL,
                   ''  C- /z/home/u/coll/z'' @ NL]\<rparr>)"
    unfolding first second
    by (simp add: s3_def s2_def s1_def demo_state_def demo_fs_def)
  from both resolves third show ?thesis
    by blast
qed

section \<open>Properties of goput\<close>

text \<open>The calls issued so far are never changed: a run only appends to them.\<close>

lemma putEntries_calls:
  assumes body: "\<And>x s r s'. body x s = Some (r, s') \<Longrightarrow> \<exists>rest. calls s' = calls s @ rest"
  shows "putEntries body xs s = Some (r, s') \<Longrightarrow> \<exists>rest. calls s' = calls s @ rest"
proof (induction xs arbitrary: s)
  case Nil
  then show ?case by simp
next
  case (Cons x xs)
  show ?case
  proof (cases "body x s")
    case None
    with Cons.prems show ?thesis by simp
  next
    case (Some a)
    obtain e s1 where a: "a = (e, s1)" by (cases a)
    from body [of x s e s1] Some a obtain r1 where r1: "calls s1 = calls s @ r1"
      by auto
    show ?thesis
    proof (cases e)
      case None
      with Some a Cons.prems have "putEntries body xs s1 = Some (r, s')" by simp
      from Cons.IH [OF this] obtain r2 where "calls s' = calls s1 @ r2"
        by auto
      with r1 show ?thesis by simp
    next
      case (Some err)
      with \<open>body x s = Some a\<close> a Cons.prems have "s' = s1" by simp
      with r1 show ?thesis by simp
    qed
  qed
qed

lemma putOne_calls:
  "putOne depth fs a b s = Some (r, s') \<Longrightarrow> \<exists>rest. calls s' = calls s @ rest"
proof (induction depth arbitrary: a b s r s')
  case 0
  then show ?case by simp
next
  case (Suc depth)
  have ent: "\<exists>rest. calls s' = calls s0 @ rest"
    if "putEntries (\<lambda>e. putOne depth fs (f e) t) xs s0 = Some (r, s')" for f t xs s0 r s'
  proof (rule putEntries_calls [where body = "\<lambda>e. putOne depth fs (f e) t"])
    fix x s1 r1 s1'
    assume "putOne depth fs (f x) t s1 = Some (r1, s1')"
    then show "\<exists>rest. calls s1' = calls s1 @ rest" by (rule Suc.IH)
  next
    show "putEntries (\<lambda>e. putOne depth fs (f e) t) xs s0 = Some (r, s')" by (rule that)
  qed
  from Suc.prems show ?case
    by (auto simp: Let_def invoke_def putDataObject_def dest!: ent
        split: prod.splits sum.splits if_splits option.splits)
qed

text \<open>A run that returns within some nesting depth returns the same with more.\<close>

lemma putEntries_mono:
  assumes "\<And>x s r. body x s = Some r \<Longrightarrow> body' x s = Some r"
  shows "putEntries body xs s = Some r \<Longrightarrow> putEntries body' xs s = Some r"
proof (induction xs arbitrary: s)
  case Nil
  then show ?case by simp
next
  case (Cons x xs)
  then show ?case
    by (cases "body x s") (auto dest: assms split: option.splits prod.splits)
qed

lemma putOne_more_depth:
  "putOne depth fs a b s = Some r \<Longrightarrow> putOne (Suc depth) fs a b s = Some r"
proof (induction depth arbitrary: a b s r)
  case 0
  then show ?case by simp
next
  case (Suc depth)
  have ent: "putEntries (\<lambda>e. putOne (Suc depth) fs (f e) t) xs s0 = Some r0"
    if "putEntries (\<lambda>e. putOne depth fs (f e) t) xs s0 = Some r0" for f t xs s0 r0
  proof (rule putEntries_mono [where body = "\<lambda>e. putOne depth fs (f e) t"])
    fix x s1 r1
    assume "putOne depth fs (f x) t s1 = Some r1"
    then show "putOne (Suc depth) fs (f x) t s1 = Some r1" by (rule Suc.IH)
  next
    show "putEntries (\<lambda>e. putOne depth fs (f e) t) xs s0 = Some r0" by (rule that)
  qed
  from Suc.prems show ?case
    by (subst putOne.simps(2), subst (asm) putOne.simps(2))
       (auto simp: Let_def dest!: ent split: prod.splits sum.splits if_splits option.splits)
qed

lemma putEntries_abort:
  assumes "putEntries body before s = Some (None, s1)"
    and "body entry s1 = Some (Some err, s2)"
  shows "putEntries body (before @ entry # after) s = Some (Some err, s2)"
  using assms
  by (induction before arbitrary: s) (auto split: option.splits prod.splits)

lemma putOne_directory:
  assumes "sourcePath = MakeLocalPath fs sourcePath0"
    and "targetPath = goput_MakeIRODSPath fs (goput_GetCWD fs) targetPath0"
    and "targetDir = filepath_Join fs targetPath (filepath_Base fs sourcePath)"
    and "os_Stat fs sourcePath (world s) = (Inr True, w1)"
    and "os_ReadDir fs sourcePath w1 = (Inr entries, w2)"
    and "MakeDir fs targetDir True w2 = (created, w3)"
    and "s3 = s\<lparr>world := w3, calls := calls s @ [StatCall sourcePath, ReadDirCall sourcePath,
                   MakeDirCall targetDir True]\<rparr>"
  shows "putOne (Suc depth) fs sourcePath0 targetPath0 s
           = (case created of
                Some err \<Rightarrow> Some (Some err, s3)
              | None \<Rightarrow>
                  putEntries
                    (\<lambda>entryInDir.
                       putOne depth fs (filepath_Join fs sourcePath entryInDir) targetDir)
                    entries s3)"
  using assms by (cases created) (simp_all add: Let_def invoke_def)

text \<open>
  C3: for every local directory that \<open>putOne\<close> uploads, the calls are the stat and the
  read of the directory, then \<open>MakeDir\<close> with the recursive flag on the target joined
  with the directory's base name, and only then, in the state after that call, the upload
  of each entry into that sub-collection; when the creation fails nothing follows. On the
  tree \<open>root/{a.txt, sub/b.txt}\<close> and the target \<open>/z/T\<close> the calls are, in order:
  create \<open>/z/T/root\<close>, upload \<open>a.txt\<close> into it, create \<open>/z/T/root/sub\<close>, upload
  \<open>b.txt\<close> into it.
\<close>

theorem putOne_creates_before_children:
  assumes "sourcePath = MakeLocalPath fs sourcePath0"
    and "targetPath = goput_MakeIRODSPath fs (goput_GetCWD fs) targetPath0"
    and "targetDir = filepath_Join fs targetPath (filepath_Base fs sourcePath)"
    and "os_Stat fs sourcePath (world s) = (Inr True, w1)"
    and "os_ReadDir fs sourcePath w1 = (Inr entries, w2)"
    and "MakeDir fs targetDir True w2 = (created, w3)"
    and "s3 = s\<lparr>world := w3, calls := calls s @ [StatCall sourcePath, ReadDirCall sourcePath,
                   MakeDirCall targetDir True]\<rparr>"
  shows "putOne (Suc depth) fs sourcePath0 targetPath0 s
           = (case created of
                Some err \<Rightarrow> Some (Some err, s3)
              | None \<Rightarrow>
                  putEntries
                    (\<lambda>entryInDir.
                       putOne depth fs (filepath_Join fs sourcePath entryInDir) targetDir)
                    entries s3)
       \<and> (\<forall>r s'. putOne (Suc depth) fs sourcePath0 targetPath0 s = Some (r, s') \<longrightarrow>
             (\<exists>rest. calls s' = calls s @ [StatCall sourcePath, ReadDirCall sourcePath,
                                            MakeDirCall targetDir True] @ rest
                    \<and> (created \<noteq> None \<longrightarrow> rest = [])))
       \<and> putOne 3 demo_uploader ''root'' ''/z/T'' demo_state
           = Some (None,
               \<lparr>world = 4,
                calls = [StatCall ''/tmp/root'', ReadDirCall ''/tmp/root'',
                   MakeDirCall ''/z/T/root'' True,
                   StatCall ''/tmp/root/a.txt'',
                   UploadFileParallelCall ''/tmp/root/a.txt'' ''/z/T/root'' [] 0 False,
                   StatCall ''/tmp/root/sub'', ReadDirCall ''/tmp/root/sub'',
                   MakeDirCall ''/z/T/root/sub'' True,
                   StatCall ''/tmp/root/sub/b.txt'',
                   UploadFileParallelCall ''/tmp/root/sub/b.txt'' ''/z/T/root/sub'' [] 0 False],
                stdout = []\<rparr>)"
proof -
  note step = putOne_directory [OF assms, of depth]
  have order: "\<exists>rest. calls s' = calls s @ [StatCall sourcePath, ReadDirCall sourcePath,
                                            MakeDirCall targetDir True] @ rest
                    \<and> (created \<noteq> None \<longrightarrow> rest = [])"
    if run: "putOne (Suc depth) fs sourcePath0 targetPath0 s = Some (r, s')" for r s'
  proof (cases created)
    case None
    with step run have "putEntries
        (\<lambda>entryInDir. putOne depth fs (filepath_Join fs sourcePath entryInDir) targetDir)
        entries s3 = Some (r, s')"
      by simp
    then have "\<exists>rest. calls s' = calls s3 @ rest"
      by (rule putEntries_calls [rotated]) (rule putOne_calls)
    with None assms(7) show ?thesis by auto
  next
    case (Some err)
    with step run have "s' = s3" by simp
    with Some assms(7) show ?thesis by simp
  qed
  have example: "putOne 3 demo_uploader ''root'' ''/z/T'' demo_state
           = Some (None,
               \<lparr>world = 4,
                calls = [StatCall ''/tmp/root'', ReadDirCall ''/tmp/root'',
                   MakeDirCall ''/z/T/root'' True,
                   StatCall ''/tmp/root/a.txt'',
                   UploadFileParallelCall ''/tmp/root/a.txt'' ''/z/T/root'' [] 0 False,
                   StatCall ''/tmp/root/sub'', ReadDirCall ''/tmp/root/sub'',
                   MakeDirCall ''/z/T/root/sub'' True,
                   StatCall ''/tmp/root/sub/b.txt'',
                   UploadFileParallelCall ''/tmp/root/sub/b.txt'' ''/z/T/root/sub'' [] 0 False],
                stdout = []\<rparr>)"
    by (simp add: numeral_3_eq_3 Let_def invoke_def putDataObject_def demo_uploader_def
        demo_join_def demo_state_def)
  from step order example show ?thesis by blast
qed

theorem putOne_creates_before_children_witness:
  "putOne 3 demo_uploader ''root'' ''/z/T'' demo_state
     = putEntries (\<lambda>entryInDir. putOne 2 demo_uploader (''/tmp/root/'' @ entryInDir) ''/z/T/root'')
         [''a.txt'', ''sub'']
         \<lparr>world = 1,
          calls = [StatCall ''/tmp/root'', ReadDirCall ''/tmp/root'', MakeDirCall ''/z/T/root'' True],
          stdout = []\<rparr>
   \<and> (\<exists>s'. putOne 3 demo_uploader ''root'' ''/z/T'' demo_state = Some (None, s')
          \<and> filter is_remote_write (calls s')
              = [MakeDirCall ''/z/T/root'' True,
                 UploadFileParallelCall ''/tmp/root/a.txt'' ''/z/T/root'' [] 0 False,
                 MakeDirCall ''/z/T/root/sub'' True,
                 UploadFileParallelCall ''/tmp/root/sub/b.txt'' ''/z/T/root/sub'' [] 0 False])"
proof -
  have a1: "''/tmp/root'' = MakeLocalPath demo_uploader ''root''"
    and a2: "''/z/T'' = goput_MakeIRODSPath demo_uploader (goput_GetCWD demo_uploader) ''/z/T''"
    and a3: "''/z/T/root'' = filepath_Join demo_uploader ''/z/T''
                               (filepath_Base demo_uploader ''/tmp/root'')"
    and a4: "os_Stat demo_uploader ''/tmp/root'' (world demo_state) = (Inr True, 0)"
    and a5: "os_ReadDir demo_uploader ''/tmp/root'' 0 = (Inr [''a.txt'', ''sub''], 0)"
    and a6: "MakeDir demo_uploader ''/z/T/root'' True 0 = (None, 1)"
    by (simp_all add: demo_uploader_def demo_join_def demo_state_def)
  have a7: "\<lparr>world = 1,
          calls = [StatCall ''/tmp/root'', ReadDirCall ''/tmp/root'', MakeDirCall ''/z/T/root'' True],
          stdout = []\<rparr>
        = demo_state\<lparr>world := 1, calls := calls demo_state @ [StatCall ''/tmp/root'',
             ReadDirCall ''/tmp/root'', MakeDirCall ''/z/T/root'' True]\<rparr>"
    by (simp add: demo_state_def)
  have join: "filepath_Join demo_uploader ''/tmp/root'' = (\<lambda>e. ''/tmp/root/'' @ e)"
    by (simp add: demo_uploader_def)
  note T = putOne_creates_before_children [OF a1 a2 a3 a4 a5 a6 a7, of 2]
  have first: "putOne 3 demo_uploader ''root'' ''/z/T'' demo_state
     = putEntries (\<lambda>entryInDir. putOne 2 demo_uploader (''/tmp/root/'' @ entryInDir) ''/z/T/root'')
         [''a.txt'', ''sub'']
         \<lparr>world = 1,
          calls = [StatCall ''/tmp/root'', ReadDirCall ''/tmp/root'', MakeDirCall ''/z/T/root'' True],
          stdout = []\<rparr>"
    using T [THEN conjunct1] by (simp add: join numeral_3_eq_3)
  have second: "\<exists>s'. putOne 3 demo_uploader ''root'' ''/z/T'' demo_state = Some (None, s')
          \<and> filter is_remote_write (calls s')
              = [MakeDirCall ''/z/T/root'' True,
                 UploadFileParallelCall ''/tmp/root/a.txt'' ''/z/T/root'' [] 0 False,
                 MakeDirCall ''/z/T/root/sub'' True,
                 UploadFileParallelCall ''/tmp/root/sub/b.txt'' ''/z/T/root/sub'' [] 0 False]"
    unfolding T [THEN conjunct2, THEN conjunct2] by simp
  show ?thesis
    by (rule conjI [OF first second])
qed

text \<open>
  C8: the upload fails fast. An error of the upload of a file, or of the creation of the
  sub-collection, is what \<open>putOne\<close> returns, with no call after it; and when the upload
  of an entry of a directory returns an error after the entries before it succeeded, the
  \<open>putOne\<close> of the directory returns that error in the state the entry left: no later
  entry of the directory is processed.
\<close>

theorem putOne_fail_fast:
  assumes "sourcePath = MakeLocalPath fs sourcePath0"
    and "targetPath = goput_MakeIRODSPath fs (goput_GetCWD fs) targetPath0"
    and "targetDir = filepath_Join fs targetPath (filepath_Base fs sourcePath)"
  shows "(\<forall>w1 err w2.
            os_Stat fs sourcePath (world s) = (Inr False, w1)
            \<and> UploadFileParallel fs sourcePath targetPath [] 0 False w1 = (Some err, w2) \<longrightarrow>
            putOne (Suc depth) fs sourcePath0 targetPath0 s
              = Some (Some err,
                  s\<lparr>world := w2,
                    calls := calls s @ [StatCall sourcePath,
                       UploadFileParallelCall sourcePath targetPath [] 0 False]\<rparr>))
       \<and> (\<forall>w1 entries w2 err w3.
            os_Stat fs sourcePath (world s) = (Inr True, w1)
            \<and> os_ReadDir fs sourcePath w1 = (Inr entries, w2)
            \<and> MakeDir fs targetDir True w2 = (Some err, w3) \<longrightarrow>
            putOne (Suc depth) fs sourcePath0 targetPath0 s
              = Some (Some err,
                  s\<lparr>world := w3,
                    calls := calls s @ [StatCall sourcePath, ReadDirCall sourcePath,
                       MakeDirCall targetDir True]\<rparr>))
       \<and> (\<forall>w1 entries w2 w3 before entry after s4 err s5.
            os_Stat fs sourcePath (world s) = (Inr True, w1)
            \<and> os_ReadDir fs sourcePath w1 = (Inr entries, w2)
            \<and> MakeDir fs targetDir True w2 = (None, w3)
            \<and> entries = before @ entry # after
            \<and> putEntries
                 (\<lambda>entryInDir. putOne depth fs (filepath_Join fs sourcePath entryInDir) targetDir)
                 before
                 (s\<lparr>world := w3,
                    calls := calls s @ [StatCall sourcePath, ReadDirCall sourcePath,
                       MakeDirCall targetDir True]\<rparr>) = Some (None, s4)
            \<and> putOne depth fs (filepath_Join fs sourcePath entry) targetDir s4
                 = Some (Some err, s5) \<longrightarrow>
            putOne (Suc depth) fs sourcePath0 targetPath0 s = Some (Some err, s5))"
proof -
  have upload: "putOne (Suc depth) fs sourcePath0 targetPath0 s
              = Some (Some err,
                  s\<lparr>world := w2,
                    calls := calls s @ [StatCall sourcePath,
                       UploadFileParallelCall sourcePath targetPath [] 0 False]\<rparr>)"
    if "os_Stat fs sourcePath (world s) = (Inr False, w1)"
      and "UploadFileParallel fs sourcePath targetPath [] 0 False w1 = (Some err, w2)"
    for w1 err w2
    using assms that by (simp add: Let_def invoke_def putDataObject_def)
  have create: "putOne (Suc depth) fs sourcePath0 targetPath0 s
              = Some (Some err,
                  s\<lparr>world := w3,
                    calls := calls s @ [StatCall sourcePath, ReadDirCall sourcePath,
                       MakeDirCall targetDir True]\<rparr>)"
    if "os_Stat fs sourcePath (world s) = (Inr True, w1)"
      and "os_ReadDir fs sourcePath w1 = (Inr entries, w2)"
      and "MakeDir fs targetDir True w2 = (Some err, w3)"
    for w1 entries w2 err w3
    using putOne_directory [OF assms that refl, of depth] by simp
  have entry: "putOne (Suc depth) fs sourcePath0 targetPath0 s = Some (Some err, s5)"
    if "os_Stat fs sourcePath (world s) = (Inr True, w1)"
      and "os_ReadDir fs sourcePath w1 = (Inr entries, w2)"
      and "MakeDir fs targetDir True w2 = (None, w3)"
      and "entries = before @ entry # after"
      and "putEntries
                 (\<lambda>entryInDir. putOne depth fs (filepath_Join fs sourcePath entryInDir) targetDir)
                 before
                 (s\<lparr>world := w3,
                    calls := calls s @ [StatCall sourcePath, ReadDirCall sourcePath,
                       MakeDirCall targetDir True]\<rparr>) = Some (None, s4)"
      and "putOne depth fs (filepath_Join fs sourcePath entry) targetDir s4 = Some (Some err, s5)"
    for w1 entries w2 w3 before entry after s4 err s5
    using putOne_directory [OF assms that(1,2,3) refl, of depth]
      putEntries_abort [OF that(5), of entry err s5 after] that(4,6)
    by simp
  from upload create entry show ?thesis by blast
qed

theorem putOne_fail_fast_witness:
  "putOne 2 demo_uploader ''bad'' ''/z/T'' demo_state
     = Some (Some (External ''permission denied''),
         \<lparr>world = 1,
          calls = [StatCall ''/tmp/bad'', ReadDirCall ''/tmp/bad'', MakeDirCall ''/z/T/bad'' True,
             StatCall ''/tmp/bad/a.txt'',
             UploadFileParallelCall ''/tmp/bad/a.txt'' ''/z/T/bad'' [] 0 False],
          stdout = []\<rparr>)"
proof -
  have a1: "''/tmp/bad'' = MakeLocalPath demo_uploader ''bad''"
    and a2: "''/z/T'' = goput_MakeIRODSPath demo_uploader (goput_GetCWD demo_uploader) ''/z/T''"
    and a3: "''/z/T/bad'' = filepath_Join demo_uploader ''/z/T''
                               (filepath_Base demo_uploader ''/tmp/bad'')"
    by (simp_all add: demo_uploader_def demo_join_def)
  define s3 :: "nat state" where
    "s3 = demo_state\<lparr>world := 1, calls := calls demo_state @ [StatCall ''/tmp/bad'',
             ReadDirCall ''/tmp/bad'', MakeDirCall ''/z/T/bad'' True]\<rparr>"
  define s5 :: "nat state" where
    "s5 = \<lparr>world = 1,
          calls = [StatCall ''/tmp/bad'', ReadDirCall ''/tmp/bad'', MakeDirCall ''/z/T/bad'' True,
             StatCall ''/tmp/bad/a.txt'',
             UploadFileParallelCall ''/tmp/bad/a.txt'' ''/z/T/bad'' [] 0 False],
          stdout = []\<rparr>"
  have b1: "os_Stat demo_uploader ''/tmp/bad'' (world demo_state) = (Inr True, 0)"
    and b2: "os_ReadDir demo_uploader ''/tmp/bad'' 0 = (Inr [''a.txt'', ''b.txt''], 0)"
    and b3: "MakeDir demo_uploader ''/z/T/bad'' True 0 = (None, 1)"
    by (simp_all add: demo_uploader_def demo_state_def)
  have b4: "[''a.txt'', ''b.txt''] = [] @ ''a.txt'' # [''b.txt'']"
    by simp
  have b5: "putEntries
              (\<lambda>entryInDir. putOne 1 demo_uploader
                 (filepath_Join demo_uploader ''/tmp/bad'' entryInDir) ''/z/T/bad'')
              [] s3 = Some (None, s3)"
    by simp
  have b6: "putOne 1 demo_uploader (filepath_Join demo_uploader ''/tmp/bad'' ''a.txt'') ''/z/T/bad'' s3
              = Some (Some (External ''permission denied''), s5)"
    by (simp add: Let_def invoke_def putDataObject_def demo_uploader_def demo_join_def
        demo_state_def s3_def s5_def)
  have "putOne (Suc 1) demo_uploader ''bad'' ''/z/T'' demo_state
          = Some (Some (External ''permission denied''), s5)"
    using putOne_fail_fast [OF a1 a2 a3, of demo_state 1, THEN conjunct2, THEN conjunct2]
      b1 b2 b3 b4 b5 [unfolded s3_def] b6 [unfolded s3_def]
    by blast
  then show ?thesis
    by (simp add: s5_def numeral_2_eq_2)
qed

end
